theory Spec2Isabelle
  imports Main "HOL-Library.Word" "HOL-Library.Sublist"
begin

section \<open>Shared vocabulary: statuses, thrown values, the S3 client\<close>

text \<open>
  The routes and the S3 driver name their HTTP statuses through the table \<open>ApiStatus\<close>
  (\<open>ApiStatus.BAD_REQUEST\<close>, \<open>ApiStatus.FORBIDDEN\<close>, ...). The constructors below are the
  members the modelled code uses.
\<close>

datatype ApiStatus =
    SUCCESS | ACCEPTED | BAD_REQUEST | UNAUTHORIZED | FORBIDDEN | NOT_FOUND
  | CONFLICT | GONE | PAYLOAD_TOO_LARGE | INTERNAL_ERROR

text \<open>
  Modelled from the spec: the file constants/index.js, which gives the members of
  \<open>ApiStatus\<close> their numbers, is not among the sources. The numbers are those of the spec's
  error mapping (invalid request 400, path forbidden 403, not found 404, conflict 409,
  other 500) and, for the members the mapping does not list, the HTTP status of the same name.
\<close>

fun status_code :: "ApiStatus \<Rightarrow> nat" where
  "status_code SUCCESS = 200"
| "status_code ACCEPTED = 202"
| "status_code BAD_REQUEST = 400"
| "status_code UNAUTHORIZED = 401"
| "status_code FORBIDDEN = 403"
| "status_code NOT_FOUND = 404"
| "status_code CONFLICT = 409"
| "status_code GONE = 410"
| "status_code PAYLOAD_TOO_LARGE = 413"
| "status_code INTERNAL_ERROR = 500"

text \<open>
  An error of the AWS SDK carries \<open>$metadata.httpStatusCode\<close> (possibly absent) and a
  \<open>name\<close>. A JavaScript \<open>throw\<close> is a value: either an \<open>HTTPException\<close> with its
  status, or the raw SDK error. Messages are not modelled.
\<close>

record s3_error =
  httpStatusCode :: "nat option"
  error_name :: string

datatype thrown = HTTPException ApiStatus | S3Error s3_error

text \<open>The fields of a HeadObject / GetObject / PutObject response that the code reads.\<close>

record s3_response =
  ContentType :: "string option"
  ContentLength :: "nat option"
  LastModified :: "string option"
  ETag :: "string option"

text \<open>
  Content handed to \<open>updateFile\<close>: a JavaScript string (a sequence of UTF-16 code units,
  which is what \<open>content.length\<close> counts) or an \<open>ArrayBuffer\<close> (bytes, counted by
  \<open>byteLength\<close>).
\<close>

datatype js_content = StringContent "16 word list" | ArrayBufferContent "8 word list"

datatype s3_command =
    HeadObject string
  | GetObject string "string option"
  | PutObject string js_content string
  | CopyObject string string
  | DeleteObject string

text \<open>
  \<open>s3Client.send\<close>: the object store answers a command with a response or with an error.
  Every function of the driver returns its result together with the commands it has sent,
  in order.
\<close>

type_synonym s3_client = "s3_command \<Rightarrow> s3_error + s3_response"

text \<open>\<open>handleFsError\<close> (ErrorHandler.js): an \<open>HTTPException\<close> is rethrown as it is, any
  other error becomes an \<open>HTTPException\<close> with \<open>ApiStatus.INTERNAL_ERROR\<close>.\<close>

fun handleFsError :: "thrown + 'a \<Rightarrow> thrown + 'a" where
  "handleFsError (Inr v) = Inr v"
| "handleFsError (Inl (HTTPException s)) = Inl (HTTPException s)"
| "handleFsError (Inl (S3Error e)) = Inl (HTTPException INTERNAL_ERROR)"

text \<open>\<open>x || y\<close> on an optional string: the empty string and \<open>undefined\<close> are falsy.\<close>

fun js_or :: "string option \<Rightarrow> string \<Rightarrow> string" where
  "js_or None d = d"
| "js_or (Some s) d = (if s = [] then d else s)"

text \<open>\<open>etag.replace(/"/g, "")\<close> under the guard \<open>ETag ? ... : undefined\<close>.\<close>

fun strip_etag :: "string option \<Rightarrow> string option" where
  "strip_etag None = None"
| "strip_etag (Some e) = (if e = [] then None else Some (filter (\<lambda>c. c \<noteq> CHR 0x22) e))"

section \<open>S3FileOperations.updateFile\<close>

definition MAX_FILE_SIZE :: nat where
  "MAX_FILE_SIZE = 10 * 1024 * 1024"

text \<open>The two size tests of \<open>updateFile\<close>: \<open>content.length\<close> for a string,
  \<open>content.byteLength\<close> for an ArrayBuffer.\<close>

fun content_size :: "js_content \<Rightarrow> nat" where
  "content_size (StringContent s) = length s"
| "content_size (ArrayBufferContent b) = length b"

record update_result =
  upd_path :: string
  upd_etag :: "string option"
  upd_mimetype :: string
  upd_isNewFile :: bool

text \<open>
  \<open>updateFile(s3SubPath, content, {fileName})\<close>. \<open>mime\<close> is \<open>getMimeTypeFromFilename\<close> of
  fileUtils.js, which looks the extension of a file name up in tables of MIME types; the
  tables are not reproduced and the function is a parameter. \<open>parents\<close> is
  \<open>updateParentDirectoriesModifiedTime\<close> (S3DirectoryUtils.js, not among the sources):
  \<open>parents key\<close> gives the commands that helper sends and the error it throws, if any. A
  failing HeadObject is caught and only logged.
\<close>

definition updateFile ::
  "(string \<Rightarrow> string) \<Rightarrow> s3_client \<Rightarrow> (string \<Rightarrow> s3_error option \<times> s3_command list)
   \<Rightarrow> string \<Rightarrow> js_content \<Rightarrow> string option
   \<Rightarrow> (thrown + update_result) \<times> s3_command list" where
  "updateFile mime s3 parents s3SubPath content fileName =
    (if content_size content > MAX_FILE_SIZE
     then (handleFsError (Inl (HTTPException BAD_REQUEST)), [])
     else
       let contentType = mime (js_or fileName s3SubPath);
           originalMetadata = (case s3 (HeadObject s3SubPath) of Inr r \<Rightarrow> Some r | Inl e \<Rightarrow> None);
           sent = [HeadObject s3SubPath, PutObject s3SubPath content contentType]
       in case s3 (PutObject s3SubPath content contentType) of
            Inl e \<Rightarrow> (handleFsError (Inl (S3Error e)), sent)
          | Inr result \<Rightarrow>
              (case parents s3SubPath of
                 (Some e, extra) \<Rightarrow> (handleFsError (Inl (S3Error e)), sent @ extra)
               | (None, extra) \<Rightarrow>
                   (Inr \<lparr> upd_path = s3SubPath,
                          upd_etag = strip_etag (ETag result),
                          upd_mimetype = contentType,
                          upd_isNewFile = (originalMetadata = None) \<rparr>,
                    sent @ extra)))"

section \<open>S3FileOperations.renameFile\<close>

text \<open>What \<open>error.$metadata?.httpStatusCode\<close> reads from a caught value: an
  \<open>HTTPException\<close> has no \<open>$metadata\<close>.\<close>

fun metadata_status :: "thrown \<Rightarrow> nat option" where
  "metadata_status (HTTPException s) = None"
| "metadata_status (S3Error e) = httpStatusCode e"

record rename_result =
  rn_oldPath :: string
  rn_newPath :: string

text \<open>
  \<open>renameFile(oldS3SubPath, newS3SubPath)\<close>. The target check is a \<open>try\<close> whose body
  throws \<open>HTTPException(CONFLICT)\<close> when the HeadObject of the target succeeds; its
  \<open>catch\<close> rethrows whatever it caught unless that carries status 404. \<open>CopyObject old new\<close>
  stands for the command with \<open>CopySource = bucket/old\<close> and \<open>Key = new\<close>.
\<close>

definition renameFile ::
  "s3_client \<Rightarrow> string \<Rightarrow> string \<Rightarrow> (thrown + rename_result) \<times> s3_command list" where
  "renameFile s3 oldS3SubPath newS3SubPath =
    (case s3 (HeadObject oldS3SubPath) of
       Inl e \<Rightarrow> (handleFsError (Inl (S3Error e)), [HeadObject oldS3SubPath])
     | Inr src \<Rightarrow>
         let caught = (case s3 (HeadObject newS3SubPath) of
                         Inr tgt \<Rightarrow> HTTPException CONFLICT
                       | Inl e \<Rightarrow> S3Error e);
             heads = [HeadObject oldS3SubPath, HeadObject newS3SubPath]
         in if metadata_status caught \<noteq> Some 404
            then (handleFsError (Inl caught), heads)
            else
              (case s3 (CopyObject oldS3SubPath newS3SubPath) of
                 Inl e \<Rightarrow>
                   (handleFsError (Inl (S3Error e)),
                    heads @ [CopyObject oldS3SubPath newS3SubPath])
               | Inr copied \<Rightarrow>
                   (case s3 (DeleteObject oldS3SubPath) of
                      Inl e \<Rightarrow>
                        (handleFsError (Inl (S3Error e)),
                         heads @ [CopyObject oldS3SubPath newS3SubPath, DeleteObject oldS3SubPath])
                    | Inr deleted \<Rightarrow>
                        (Inr \<lparr> rn_oldPath = oldS3SubPath, rn_newPath = newS3SubPath \<rparr>,
                         heads @ [CopyObject oldS3SubPath newS3SubPath,
                                  DeleteObject oldS3SubPath]))))"

section \<open>S3FileOperations.getFileInfo\<close>

text \<open>The fields of the mount that \<open>getFileInfo\<close> reads; \<open>web_proxy\<close> is the value of
  \<open>!!mount.web_proxy\<close>.\<close>

record mount_info =
  mount_id :: string
  storage_type :: string
  web_proxy :: bool
  cache_ttl :: int

text \<open>The storage driver handed to the constructor (\<open>null\<close> by default):
  \<open>hasCapability(CAPABILITIES.PROXY)\<close> and \<open>generateProxyUrl(path, {download})\<close>, which
  gives the URL or throws (\<open>None\<close>).\<close>

record driver =
  hasProxyCapability :: bool
  generateProxyUrl :: "string \<Rightarrow> bool \<Rightarrow> string option"

text \<open>The argument \<open>expiresIn\<close> of the presigned URL functions: left out, \<open>null\<close>, or a
  number of seconds.\<close>

datatype js_expiry = ExpiryUndefined | ExpiryNull | ExpirySeconds nat

text \<open>The parameters of the \<open>GetObjectCommand\<close> that is signed.\<close>

record get_object_params =
  gp_Bucket :: string
  gp_Key :: string
  gp_ResponseContentDisposition :: string
  gp_ResponseContentType :: string

text \<open>
  Modelled from the spec: the storage configuration (\<open>this.config\<close>) is a row of the table
  of S3 configurations, whose columns are not among the sources. \<open>generatePresignedUrl\<close>
  reads its \<open>bucket_name\<close>; \<open>createS3Client\<close> reads the endpoint, the region and the
  credentials. The spec's StorageConfig carries a \<open>defaultSignedTtl\<close>, the configured
  expiry of signed URLs in seconds; it is a field here so that what the code makes of it
  can be stated. No statement of \<open>getFileInfo\<close> or of s3Utils.js reads such a field.
\<close>

record s3_storage_config =
  bucket_name :: string
  defaultSignedTtl :: "nat option"

text \<open>The MIME helpers that s3Utils.js imports from fileUtils.js, which look a file name or
  a MIME type up in tables of extensions and types; they are taken to return.\<close>

record file_utils =
  fu_shouldUseTextPlainForPreview :: "string option \<Rightarrow> string \<Rightarrow> bool"
  fu_getMimeTypeFromFilename :: "string \<Rightarrow> string"
  fu_getMimeTypeGroup :: "string \<Rightarrow> string"

text \<open>
  What \<open>getFileInfo\<close> and \<open>generatePresignedUrl\<close> are given. \<open>GetFileType\<close> and
  \<open>getFileTypeName\<close> (fileTypeDetector.js), \<open>FILE_TYPES.FOLDER\<close> and
  \<open>FILE_TYPE_NAMES[FOLDER]\<close> (constants) come from files that are not among the sources
  and are taken to return; \<open>now\<close> is the clock behind \<open>new Date()\<close>. \<open>config\<close> is the
  storage configuration of the driver. \<open>createS3Client_ok\<close> says whether \<open>createS3Client\<close>
  returns a client rather than throws (it decrypts the credentials). \<open>getSignedUrl\<close> is the
  signer of the AWS SDK (\<open>@aws-sdk/s3-request-presigner\<close>), called with the command and the
  option \<open>expiresIn\<close>; it gives the URL or throws (\<open>None\<close>).
\<close>

record fs_env =
  GetFileType :: "string \<Rightarrow> nat"
  getFileTypeName :: "string \<Rightarrow> string"
  FOLDER :: nat
  FOLDER_NAME :: string
  now :: string
  config :: s3_storage_config
  fileUtils :: file_utils
  createS3Client_ok :: bool
  getSignedUrl :: "get_object_params \<Rightarrow> js_expiry \<Rightarrow> string option"

record file_info =
  fi_path :: string
  fi_name :: string
  fi_isDirectory :: bool
  fi_size :: nat
  fi_modified :: string
  fi_mimetype :: string
  fi_etag :: "string option"
  fi_mount_id :: string
  fi_storage_type :: string
  fi_type :: nat
  fi_typeName :: string
  fi_preview_url :: "string option"
  fi_download_url :: "string option"

text \<open>\<open>path.split("/")\<close>.\<close>

fun split_slash :: "string \<Rightarrow> string list" where
  "split_slash [] = [[]]"
| "split_slash (c # cs) =
     (if c = CHR ''/'' then [] # split_slash cs
      else (case split_slash cs of [] \<Rightarrow> [[c]] | s # ss \<Rightarrow> (c # s) # ss))"

text \<open>\<open>path.split("/").filter(Boolean).pop() || "/"\<close>.\<close>

definition fileName_of :: "string \<Rightarrow> string" where
  "fileName_of path =
     (case filter (\<lambda>s. s \<noteq> []) (split_slash path) of
        [] \<Rightarrow> ''/''
      | s # ss \<Rightarrow> last (s # ss))"

text \<open>A value used as a condition (\<open>userType && userId\<close>): absent and empty are falsy.\<close>

fun truthy :: "string option \<Rightarrow> bool" where
  "truthy None = False"
| "truthy (Some s) = (s \<noteq> [])"

text \<open>\<open>encodeURIComponent\<close>. A string is the list of the bytes of its UTF-8 encoding: the
  letters, the digits and \<open>- _ . ! ~ * ' ( )\<close> are kept, every other byte is written as
  \<open>%\<close> and two upper-case hexadecimal digits.\<close>

definition hex_digit :: "nat \<Rightarrow> char" where
  "hex_digit n = ''0123456789ABCDEF'' ! n"

definition uri_unreserved :: "char \<Rightarrow> bool" where
  "uri_unreserved c =
     (c \<in> set ''ABCDEFGHIJKLMNOPQRSTUVWXYZabcdefghijklmnopqrstuvwxyz0123456789-_.!~*()''
      \<or> c = CHR 0x27)"

definition encodeURIComponent :: "string \<Rightarrow> string" where
  "encodeURIComponent str =
     concat (map (\<lambda>c. if uri_unreserved c then [c]
                       else [CHR ''%'', hex_digit ((of_char c :: nat) div 16),
                             hex_digit ((of_char c :: nat) mod 16)]) str)"

text \<open>The values of \<open>MIME_GROUPS\<close> (fileUtils.js) that \<open>generatePresignedUrl\<close> compares
  with.\<close>

definition MIME_GROUPS_TEXT :: string where "MIME_GROUPS_TEXT = ''text''"
definition MIME_GROUPS_CODE :: string where "MIME_GROUPS_CODE = ''code''"
definition MIME_GROUPS_CONFIG :: string where "MIME_GROUPS_CONFIG = ''config''"
definition MIME_GROUPS_MARKDOWN :: string where "MIME_GROUPS_MARKDOWN = ''markdown''"

text \<open>
  The \<open>commandParams\<close> that \<open>generatePresignedUrl(s3Config, storagePath, encryptionSecret,
  expiresIn, forceDownload, mimetype)\<close> (s3Utils.js) builds: the bucket of the
  configuration, the storage path without its leading slash as the key, a content
  disposition that is \<open>attachment\<close> or \<open>inline\<close> with the encoded file name between
  double quotes (character 0x22), and the response content type.
\<close>

definition commandParams ::
  "fs_env \<Rightarrow> string \<Rightarrow> bool \<Rightarrow> string option \<Rightarrow> get_object_params" where
  "commandParams env storagePath forceDownload mimetype =
     (let normalizedPath = (case storagePath of [] \<Rightarrow> storagePath
                            | c # rest \<Rightarrow> if c = CHR ''/'' then rest else storagePath);
          fileName = last (split_slash normalizedPath);
          shouldUseTextPlain = fu_shouldUseTextPlainForPreview (fileUtils env) mimetype fileName;
          effectiveMimetype =
            (case mimetype of
               None \<Rightarrow> fu_getMimeTypeFromFilename (fileUtils env) fileName
             | Some m \<Rightarrow> if m = [] \<or> m = ''application/octet-stream''
                         then fu_getMimeTypeFromFilename (fileUtils env) fileName else m);
          mimeGroup = fu_getMimeTypeGroup (fileUtils env) effectiveMimetype;
          needsCharset =
            (mimeGroup = MIME_GROUPS_TEXT \<or> mimeGroup = MIME_GROUPS_CODE
             \<or> mimeGroup = MIME_GROUPS_CONFIG \<or> mimeGroup = MIME_GROUPS_MARKDOWN
             \<or> effectiveMimetype = ''application/json''
             \<or> effectiveMimetype = ''application/xml''
             \<or> effectiveMimetype = ''application/javascript''
             \<or> effectiveMimetype = ''application/typescript'')
      in \<lparr> gp_Bucket = bucket_name (config env),
           gp_Key = normalizedPath,
           gp_ResponseContentDisposition =
             (if forceDownload then ''attachment; filename='' else ''inline; filename='')
             @ [CHR 0x22] @ encodeURIComponent fileName @ [CHR 0x22],
           gp_ResponseContentType =
             (if shouldUseTextPlain \<and> \<not> forceDownload then ''text/plain; charset=UTF-8''
              else if needsCharset then effectiveMimetype @ ''; charset=UTF-8''
              else effectiveMimetype) \<rparr>)"

text \<open>
  \<open>generatePresignedUrl\<close>: the URL, or \<open>None\<close> when it throws (everything it does is inside
  a \<open>try\<close> whose \<open>catch\<close> throws a new \<open>Error\<close>). The default \<open>expiresIn = 3600\<close> of the
  parameter list takes the place of an argument that is left out, not of \<open>null\<close>; the value
  is handed to \<open>getSignedUrl(s3Client, command, { expiresIn })\<close> as it is.
\<close>

definition generatePresignedUrl ::
  "fs_env \<Rightarrow> string \<Rightarrow> js_expiry \<Rightarrow> bool \<Rightarrow> string option \<Rightarrow> string option" where
  "generatePresignedUrl env storagePath expiresIn_arg forceDownload mimetype =
     (let expiresIn = (case expiresIn_arg of ExpiryUndefined \<Rightarrow> ExpirySeconds 3600
                                           | ExpiryNull \<Rightarrow> ExpiryNull
                                           | ExpirySeconds n \<Rightarrow> ExpirySeconds n)
      in if \<not> createS3Client_ok env then None
         else getSignedUrl env (commandParams env storagePath forceDownload mimetype) expiresIn)"

text \<open>
  The direct-link branch, also the fallback of the proxy branch:
  \<open>generatePresignedUrl(this.config, s3SubPath, this.encryptionSecret, null, false, null,
  cacheOptions)\<close> and the same with \<open>true\<close>. The expiry handed over is \<open>null\<close>; the seventh
  argument, made from the user and \<open>mount.cache_ttl\<close>, has no parameter to receive it. The
  preview URL is assigned before the download URL is generated; a throw leaves the later
  fields unset (the enclosing \<open>catch\<close> only logs).
\<close>

definition presigned_urls ::
  "fs_env \<Rightarrow> string \<Rightarrow> string option \<times> string option" where
  "presigned_urls env s3SubPath =
     (case generatePresignedUrl env s3SubPath ExpiryNull False None of
        None \<Rightarrow> (None, None)
      | Some previewUrl \<Rightarrow>
          (Some previewUrl, generatePresignedUrl env s3SubPath ExpiryNull True None))"

text \<open>The block \<open>if (userType && userId) { ... }\<close>, which \<open>getFileInfo\<close> contains twice
  with the same text (after the HeadObject and after the GetObject fallback).\<close>

definition decorate_urls ::
  "fs_env \<Rightarrow> driver option \<Rightarrow> mount_info \<Rightarrow> string \<Rightarrow> string \<Rightarrow> string option \<Rightarrow> string option
   \<Rightarrow> string option \<times> string option" where
  "decorate_urls env drv mount path s3SubPath userType userId =
     (if truthy userType \<and> truthy userId then
        (case drv of
           None \<Rightarrow> presigned_urls env s3SubPath
         | Some d \<Rightarrow>
             if web_proxy mount \<and> hasProxyCapability d then
               (case generateProxyUrl d path False of
                  None \<Rightarrow> presigned_urls env s3SubPath
                | Some previewProxy \<Rightarrow>
                    (case generateProxyUrl d path True of
                       None \<Rightarrow> presigned_urls env s3SubPath
                     | Some downloadProxy \<Rightarrow> (Some previewProxy, Some downloadProxy)))
             else presigned_urls env s3SubPath)
      else (None, None))"

text \<open>The \<open>result\<close> object built from a HeadObject or GetObject response.\<close>

definition build_info ::
  "fs_env \<Rightarrow> driver option \<Rightarrow> mount_info \<Rightarrow> string \<Rightarrow> string \<Rightarrow> string option \<Rightarrow> string option
   \<Rightarrow> s3_response \<Rightarrow> file_info" where
  "build_info env drv mount path s3SubPath userType userId response =
     (let fileName = fileName_of path;
          isDirectory = (ContentType response = Some ''application/x-directory'');
          urls = decorate_urls env drv mount path s3SubPath userType userId
      in \<lparr> fi_path = path,
           fi_name = fileName,
           fi_isDirectory = isDirectory,
           fi_size = (if isDirectory then 0
                      else (case ContentLength response of None \<Rightarrow> 0 | Some n \<Rightarrow> n)),
           fi_modified = (case LastModified response of None \<Rightarrow> now env | Some t \<Rightarrow> t),
           fi_mimetype = js_or (ContentType response) ''application/octet-stream'',
           fi_etag = strip_etag (ETag response),
           fi_mount_id = mount_id mount,
           fi_storage_type = storage_type mount,
           fi_type = (if isDirectory then FOLDER env else GetFileType env fileName),
           fi_typeName = (if isDirectory then FOLDER_NAME env else getFileTypeName env fileName),
           fi_preview_url = fst urls,
           fi_download_url = snd urls \<rparr>)"

text \<open>
  \<open>getFileInfo(s3SubPath, {mount, path, userType, userId})\<close>. The GetObject of the
  fallback is sent inside the \<open>catch\<close> of the HeadObject and has no handler of its own: what
  it throws leaves \<open>getFileInfo\<close> through \<open>handleFsError\<close>.
\<close>

definition getFileInfo ::
  "fs_env \<Rightarrow> s3_client \<Rightarrow> driver option \<Rightarrow> mount_info \<Rightarrow> string \<Rightarrow> string
   \<Rightarrow> string option \<Rightarrow> string option \<Rightarrow> (thrown + file_info) \<times> s3_command list" where
  "getFileInfo env s3 drv mount path s3SubPath userType userId =
    (case s3 (HeadObject s3SubPath) of
       Inr headResponse \<Rightarrow>
         (Inr (build_info env drv mount path s3SubPath userType userId headResponse),
          [HeadObject s3SubPath])
     | Inl headError \<Rightarrow>
         if httpStatusCode headError = Some 405 \<or> httpStatusCode headError = Some 403 then
           (case s3 (GetObject s3SubPath (Some ''bytes=0-0'')) of
              Inl getError \<Rightarrow>
                (handleFsError (Inl (S3Error getError)),
                 [HeadObject s3SubPath, GetObject s3SubPath (Some ''bytes=0-0'')])
            | Inr getResponse \<Rightarrow>
                (Inr (build_info env drv mount path s3SubPath userType userId getResponse),
                 [HeadObject s3SubPath, GetObject s3SubPath (Some ''bytes=0-0'')]))
         else if httpStatusCode headError = Some 404 \<or> error_name headError = ''NotFound'' then
           (handleFsError (Inl (HTTPException NOT_FOUND)), [HeadObject s3SubPath])
         else (handleFsError (Inl (S3Error headError)), [HeadObject s3SubPath]))"

section \<open>POST /api/url/commit (urlUploadRoutes.js)\<close>

text \<open>The columns of a row of the files table, and of a storage configuration, that the
  commit handler reads. \<open>total_storage_bytes\<close> is \<open>None\<close> for SQL NULL (no limit).\<close>

record file_record =
  f_id :: string
  f_s3_config_id :: string
  f_storage_path :: string
  f_size :: "int option"
  f_created_by :: "string option"

record s3_config =
  cfg_id :: string
  total_storage_bytes :: "int option"

text \<open>What \<open>PermissionUtils.isAdmin(c)\<close>, \<open>getUserId(c)\<close> and \<open>getAuthType(c)\<close> give.\<close>

record auth_info =
  a_isAdmin :: bool
  a_userId :: string
  a_authType :: string

text \<open>The request body: \<open>file_id\<close> and \<open>size\<close>. The size is the byte count the client
  reports, a non-negative integer below \<open>2^53\<close>: on these a JavaScript number is exact and
  \<open>String\<close> prints its decimal digits, so that \<open>parseInt(body.size || 0)\<close> is the number
  itself. Larger numbers, which \<open>parseInt\<close> reads through their exponent notation, are
  outside this type.\<close>

record commit_body =
  b_file_id :: "string option"
  b_size :: "53 word option"

text \<open>What the handler does to the bucket and to the files table: \<open>deleteFileFromS3\<close>
  on a storage path of a configuration, the deletion of a row of the files table, and the
  rest of the handler after the capacity check.\<close>

datatype commit_event =
    DeleteFileFromS3 string string
  | DeleteFileRecord string
  | Finish string

text \<open>\<open>FileRepository.findById\<close> and
  \<open>getTotalSizeByS3ConfigExcludingFile\<close>:
  \<open>SELECT COALESCE(SUM(size), 0) ... WHERE s3_config_id = ? AND id != ?\<close>.\<close>

definition findById :: "file_record list \<Rightarrow> string \<Rightarrow> file_record option" where
  "findById db_files fileId = find (\<lambda>f. f_id f = fileId) db_files"

definition getTotalSizeByS3ConfigExcludingFile ::
  "file_record list \<Rightarrow> string \<Rightarrow> string \<Rightarrow> int" where
  "getTotalSizeByS3ConfigExcludingFile db_files s3ConfigId excludeFileId =
     sum_list (map (\<lambda>f. case f_size f of None \<Rightarrow> 0 | Some n \<Rightarrow> n)
                   (filter (\<lambda>f. f_s3_config_id f = s3ConfigId \<and> f_id f \<noteq> excludeFileId) db_files))"

text \<open>
  What the handler is given: the files table, and the lookups \<open>findByIdAndAdmin\<close> and
  \<open>findPublicById\<close> of the S3 configuration repository. \<open>finish\<close> is the rest of the
  handler after the capacity check (metadata, slug, record update, cache), with the status
  it ends in.
\<close>

record commit_env =
  db_files :: "file_record list"
  findByIdAndAdmin :: "string \<Rightarrow> string \<Rightarrow> s3_config option"
  findPublicById :: "string \<Rightarrow> s3_config option"
  finish :: "file_record \<Rightarrow> ApiStatus"

text \<open>
  The handler of \<open>POST /api/url/commit\<close>, up to and including the capacity check. The
  result is the status of the response and what was done to the bucket and the files table.
  A throw anywhere in the handler is caught by its outer \<open>catch\<close>, which answers
  INTERNAL_ERROR.

  In the capacity branch the handler first calls \<open>deleteFileFromS3\<close> (s3Utils.js), which
  catches its own errors and returns a boolean that the handler ignores. It then calls
  \<open>fileRepository.deleteById(file.id)\<close>. \<open>FileRepository\<close> declares no method of that
  name: its record deletion is \<open>deleteFile(fileId)\<close>, which the other routes call, and the
  methods it takes from its base class (\<open>create\<close>, \<open>update\<close>, \<open>delete\<close>, \<open>findMany\<close>,
  \<open>findOne\<close>) are called with the table name first. The call therefore throws, the outer
  \<open>catch\<close> answers INTERNAL_ERROR, no row is deleted, and the statement that would answer
  \<open>ApiStatus.BAD_REQUEST\<close> is never reached.
\<close>

definition url_commit ::
  "commit_env \<Rightarrow> auth_info \<Rightarrow> commit_body \<Rightarrow> ApiStatus \<times> commit_event list" where
  "url_commit env auth body =
    (case b_file_id body of
       None \<Rightarrow> (BAD_REQUEST, [])
     | Some file_id \<Rightarrow>
       if file_id = [] then (BAD_REQUEST, [])
       else case findById (db_files env) file_id of
       None \<Rightarrow> (NOT_FOUND, [])
     | Some file \<Rightarrow>
         if a_isAdmin auth \<and> truthy (f_created_by file)
            \<and> f_created_by file \<noteq> Some (a_userId auth) then (FORBIDDEN, [])
         else if a_authType auth = ''apikey'' \<and> truthy (f_created_by file)
            \<and> f_created_by file \<noteq> Some (''apikey:'' @ a_userId auth) then (FORBIDDEN, [])
         else
           (case (if a_isAdmin auth then findByIdAndAdmin env (f_s3_config_id file) (a_userId auth)
                  else findPublicById env (f_s3_config_id file)) of
              None \<Rightarrow> (BAD_REQUEST, [])
            | Some s3Config \<Rightarrow>
                (case total_storage_bytes s3Config of
                   None \<Rightarrow> (finish env file, [Finish (f_id file)])
                 | Some limit \<Rightarrow>
                     let currentUsage =
                           getTotalSizeByS3ConfigExcludingFile (db_files env)
                             (f_s3_config_id file) (f_id file);
                         fileSize = (case b_size body of None \<Rightarrow> 0 | Some n \<Rightarrow> uint n);
                         totalAfterCommit = currentUsage + fileSize
                     in if totalAfterCommit > limit then
                          (INTERNAL_ERROR,
                           [DeleteFileFromS3 (cfg_id s3Config) (f_storage_path file)])
                        else (finish env file, [Finish (f_id file)]))))"

section \<open>WebDAV MKCOL (mkcol.js)\<close>

text \<open>\<open>findMountPointByPath\<close> (webdavUtils.js, not among the sources) gives either an
  error with its status or the mount: its id, the id of its storage configuration and the
  sub-path.\<close>

datatype mount_lookup = MountError nat | MountFound string string string

datatype mkcol_event =
    CheckDirectoryExists string
  | PutDirectoryMarker string
  | ClearCacheAfterWebDAVOperation string
  | UpdateMountLastUsed string

text \<open>
  The collaborators of \<open>handleMkcol\<close>: the mount lookup, whether the row of
  \<open>s3_configs\<close> exists, whether \<open>createS3Client\<close> returns, \<open>normalizeS3SubPath(subPath,
  s3Config, true)\<close>, \<open>checkDirectoryExists\<close> (\<open>None\<close> when it throws), and whether the
  PutObject, the cache clearing and the last-used update return rather than throw.
\<close>

record mkcol_env =
  mk_mountResult :: mount_lookup
  mk_s3ConfigExists :: "string \<Rightarrow> bool"
  mk_createS3Client_ok :: bool
  mk_normalizeS3SubPath :: "string \<Rightarrow> string"
  mk_checkDirectoryExists :: "string \<Rightarrow> bool option"
  mk_put_ok :: "string \<Rightarrow> bool"
  mk_clearCache_ok :: bool
  mk_updateMountLastUsed_ok :: bool

text \<open>\<open>s.lastIndexOf(c, fromIndex)\<close> for a one-character search string: the start is
  clamped to the string, the result is \<open>-1\<close> when there is no match at or before it.\<close>

definition lastIndexOf :: "string \<Rightarrow> char \<Rightarrow> int \<Rightarrow> int" where
  "lastIndexOf s c fromIndex =
     (let k = nat (max 0 (min fromIndex (int (length s) - 1)));
          hits = filter (\<lambda>i. s ! i = c) [0 ..< min (Suc k) (length s)]
      in if hits = [] then - 1 else int (last hits))"

text \<open>\<open>validS3SubPath.substring(0, validS3SubPath.lastIndexOf("/", validS3SubPath.length - 2) + 1)\<close>.\<close>

definition parentPath_of :: "string \<Rightarrow> string" where
  "parentPath_of p = take (nat (lastIndexOf p CHR ''/'' (int (length p) - 2) + 1)) p"

definition ROOT_MARKER :: string where
  "ROOT_MARKER = ''_MARK_ROOT_DONT_DELETE_ME/''"

text \<open>The key of the directory marker: the normalised sub-path, or the root marker when
  that is empty.\<close>

definition validS3SubPath_of :: "mkcol_env \<Rightarrow> string \<Rightarrow> string" where
  "validS3SubPath_of env subPath =
     (let s3SubPath = mk_normalizeS3SubPath env subPath
      in if s3SubPath = [] then ROOT_MARKER else s3SubPath)"

text \<open>The last part of \<open>handleMkcol\<close>: the PutObject of the marker, the cache clearing
  and the last-used update, with the response 201 when none of them throws.\<close>

definition mkcol_store :: "mkcol_env \<Rightarrow> string \<Rightarrow> string \<Rightarrow> nat \<times> mkcol_event list" where
  "mkcol_store env mountId validS3SubPath =
     (if \<not> mk_put_ok env validS3SubPath
      then (500, [PutDirectoryMarker validS3SubPath])
      else if \<not> mk_clearCache_ok env
      then (500, [PutDirectoryMarker validS3SubPath,
                  ClearCacheAfterWebDAVOperation validS3SubPath])
      else if \<not> mk_updateMountLastUsed_ok env
      then (500, [PutDirectoryMarker validS3SubPath,
                  ClearCacheAfterWebDAVOperation validS3SubPath,
                  UpdateMountLastUsed mountId])
      else (201, [PutDirectoryMarker validS3SubPath,
                  ClearCacheAfterWebDAVOperation validS3SubPath,
                  UpdateMountLastUsed mountId]))"

text \<open>The part of \<open>handleMkcol\<close> after the target was found not to exist: the parent
  directory check, answered 409 when the parent is missing, and then the creation.\<close>

definition mkcol_parent_check ::
  "mkcol_env \<Rightarrow> string \<Rightarrow> string \<Rightarrow> nat \<times> mkcol_event list" where
  "mkcol_parent_check env mountId validS3SubPath =
     (let parentPath = parentPath_of validS3SubPath
      in if CHR ''/'' \<in> set validS3SubPath \<and> parentPath \<noteq> [] then
           (case mk_checkDirectoryExists env parentPath of
              None \<Rightarrow> (500, [CheckDirectoryExists parentPath])
            | Some parentExists \<Rightarrow>
                if \<not> parentExists then (409, [CheckDirectoryExists parentPath])
                else (fst (mkcol_store env mountId validS3SubPath),
                      CheckDirectoryExists parentPath
                        # snd (mkcol_store env mountId validS3SubPath)))
         else mkcol_store env mountId validS3SubPath)"

text \<open>
  \<open>handleMkcol\<close>: the status of the response and the storage and cache operations it
  performed. Every throw is caught by the handler's \<open>catch\<close>, which answers 500.
\<close>

definition handleMkcol :: "mkcol_env \<Rightarrow> string \<Rightarrow> nat \<times> mkcol_event list" where
  "handleMkcol env body =
    (case mk_mountResult env of
       MountError status \<Rightarrow> (status, [])
     | MountFound mountId storageConfigId subPath \<Rightarrow>
         if length body > 0 then (415, [])
         else if \<not> mk_s3ConfigExists env storageConfigId then (404, [])
         else if \<not> mk_createS3Client_ok env then (500, [])
         else
           let validS3SubPath = validS3SubPath_of env subPath
           in case mk_checkDirectoryExists env validS3SubPath of
                None \<Rightarrow> (500, [CheckDirectoryExists validS3SubPath])
              | Some dirExists \<Rightarrow>
                  if dirExists then (405, [CheckDirectoryExists validS3SubPath])
                  else (fst (mkcol_parent_check env mountId validS3SubPath),
                        CheckDirectoryExists validS3SubPath
                          # snd (mkcol_parent_check env mountId validS3SubPath)))"

section \<open>AuthService (authService.js)\<close>

text \<open>A column value as the database driver returns it.\<close>

datatype sql_value = SqlInt int | SqlText string | SqlBool bool | SqlNull

record admin_record =
  adm_id :: string
  adm_password :: string

record key_record =
  k_id :: string
  k_name :: string
  k_key :: string
  k_basic_path :: "string option"
  k_text_permission :: sql_value
  k_file_permission :: sql_value
  k_mount_permission :: sql_value

text \<open>The permissions object, as the list of its entries in the order they are written.\<close>

type_synonym permissions = "(string \<times> bool) list"

record key_info =
  ki_id :: string
  ki_name :: string
  ki_key :: string
  ki_basicPath :: string
  ki_permissions :: permissions

text \<open>\<open>class AuthResult\<close>; \<open>new AuthResult()\<close> is \<open>unauthenticated\<close>.\<close>

record auth_result =
  ar_isAuthenticated :: bool
  ar_authType :: string
  ar_userId :: "string option"
  ar_permissions :: permissions
  ar_basicPath :: string
  ar_keyInfo :: "key_info option"
  ar_adminId :: "string option"
  ar_isAdmin :: bool

definition unauthenticated :: auth_result where
  "unauthenticated =
     \<lparr> ar_isAuthenticated = False, ar_authType = ''none'', ar_userId = None,
       ar_permissions = [], ar_basicPath = ''/'', ar_keyInfo = None, ar_adminId = None,
       ar_isAdmin = False \<rparr>"

definition full_permissions :: permissions where
  "full_permissions = [(''text'', True), (''file'', True), (''mount'', True), (''admin'', True)]"

text \<open>\<open>AuthResult.isAdmin()\<close> and \<open>AuthResult.hasPermission(permissionType)\<close>.\<close>

definition isAdmin :: "auth_result \<Rightarrow> bool" where
  "isAdmin r = (ar_authType r = ''admin'' \<or> ar_isAdmin r = True)"

definition hasPermission :: "auth_result \<Rightarrow> string \<Rightarrow> bool" where
  "hasPermission r permissionType =
     (if ar_authType r = ''admin'' \<or> ar_isAdmin r = True then True
      else map_of (ar_permissions r) permissionType = Some True)"

text \<open>
  What \<open>validateBasicAuth\<close> reads from the database and from files that are not among
  the sources: the admin and API-key tables seen through \<open>findByUsername\<close> and the rows of
  \<open>api_keys\<close>, \<open>verifyPassword\<close> (crypto.js), \<open>checkAndDeleteExpiredApiKey\<close>
  (apiKeyService.js) and whether \<open>updateLastUsed\<close>, the UPDATE of the key's \<open>last_used\<close>
  column that \<open>ApiKeyRepository\<close> sends to the database, returns. A lookup or a password
  verification that throws is caught and logged by \<open>validateBasicAuth\<close> and has the same
  effect on the result as a lookup that finds nothing or a verification that fails, which is
  how it appears here; likewise an expiry check that throws ends like one that reports the
  key expired.
\<close>

record auth_env =
  findByUsername :: "string \<Rightarrow> admin_record option"
  verifyPassword :: "string \<Rightarrow> string \<Rightarrow> bool"
  api_keys :: "key_record list"
  checkAndDeleteExpiredApiKey :: "key_record \<Rightarrow> bool"
  updateLastUsed_ok :: "string \<Rightarrow> bool"

text \<open>\<open>ApiKeyRepository.findByKey\<close>: no lookup for an empty key, otherwise the row whose
  \<open>key\<close> column is the given one.\<close>

definition findByKey :: "key_record list \<Rightarrow> string \<Rightarrow> key_record option" where
  "findByKey rows key = (if key = [] then None else find (\<lambda>r. k_key r = key) rows)"

text \<open>\<open>String(v) === "1" || v === true\<close>, the test that admits a key to the Basic login,
  and \<open>v === 1\<close>, the test that fills the permissions object. The first holds of the number
  1, of the text \<open>"1"\<close> and of \<open>true\<close>; the second of the number 1 only.\<close>

fun hasMountPermission :: "sql_value \<Rightarrow> bool" where
  "hasMountPermission (SqlInt n) = (n = 1)"
| "hasMountPermission (SqlText s) = (s = ''1'')"
| "hasMountPermission (SqlBool b) = b"
| "hasMountPermission SqlNull = False"

fun is_one :: "sql_value \<Rightarrow> bool" where
  "is_one (SqlInt n) = (n = 1)"
| "is_one v = False"

definition key_permissions :: "key_record \<Rightarrow> permissions" where
  "key_permissions keyRecord =
     [(''text'', is_one (k_text_permission keyRecord)),
      (''file'', is_one (k_file_permission keyRecord)),
      (''mount'', is_one (k_mount_permission keyRecord)),
      (''admin'', False)]"

text \<open>The \<open>AuthResult\<close> built for an API key, by \<open>validateBasicAuth\<close> (with
  \<open>keyRecord.key\<close>) and by \<open>validateApiKeyAuth\<close> (with the presented key).\<close>

definition apiKey_result :: "key_record \<Rightarrow> string \<Rightarrow> auth_result" where
  "apiKey_result keyRecord key =
     \<lparr> ar_isAuthenticated = True, ar_authType = ''apikey'', ar_userId = Some (k_id keyRecord),
       ar_permissions = key_permissions keyRecord,
       ar_basicPath = js_or (k_basic_path keyRecord) ''/'',
       ar_keyInfo = Some \<lparr> ki_id = k_id keyRecord, ki_name = k_name keyRecord, ki_key = key,
                           ki_basicPath = js_or (k_basic_path keyRecord) ''/'',
                           ki_permissions = key_permissions keyRecord \<rparr>,
       ar_adminId = None, ar_isAdmin = False \<rparr>"

text \<open>The second case of \<open>validateBasicAuth\<close>: the user name is an API key.\<close>

definition basic_apiKey :: "auth_env \<Rightarrow> string \<Rightarrow> string \<Rightarrow> auth_result" where
  "basic_apiKey env username password =
     (case findByKey (api_keys env) username of
        None \<Rightarrow> unauthenticated
      | Some keyRecord \<Rightarrow>
          if hasMountPermission (k_mount_permission keyRecord) then
            if username = password then
              if checkAndDeleteExpiredApiKey env keyRecord then unauthenticated
              else if \<not> updateLastUsed_ok env (k_id keyRecord) then unauthenticated
              else apiKey_result keyRecord (k_key keyRecord)
            else unauthenticated
          else unauthenticated)"

text \<open>
  \<open>validateBasicAuth\<close>, applied to the decoded credential (\<open>atob(basicToken)\<close>; \<open>None\<close>
  when the decoding throws). The user name is what precedes the first colon.
\<close>

definition validateBasicAuth :: "auth_env \<Rightarrow> string option \<Rightarrow> auth_result" where
  "validateBasicAuth env decoded_opt =
     (case decoded_opt of
        None \<Rightarrow> unauthenticated
      | Some decoded \<Rightarrow>
          if CHR '':'' \<notin> set decoded then unauthenticated
          else
            let username = takeWhile (\<lambda>c. c \<noteq> CHR '':'') decoded;
                password = tl (dropWhile (\<lambda>c. c \<noteq> CHR '':'') decoded)
            in if username = [] \<or> password = [] then unauthenticated
               else
                 (case findByUsername env username of
                    Some admin \<Rightarrow>
                      if verifyPassword env password (adm_password admin) then
                        \<lparr> ar_isAuthenticated = True, ar_authType = ''basic'',
                          ar_userId = Some (adm_id admin),
                          ar_permissions = full_permissions, ar_basicPath = ''/'',
                          ar_keyInfo = None, ar_adminId = Some (adm_id admin),
                          ar_isAdmin = True \<rparr>
                      else basic_apiKey env username password
                  | None \<Rightarrow> basic_apiKey env username password))"

text \<open>\<open>validateApiKeyAuth\<close>, the handler of \<open>Authorization: ApiKey\<close>, which has no
  mount-permission test.\<close>

definition validateApiKeyAuth :: "auth_env \<Rightarrow> string \<Rightarrow> auth_result" where
  "validateApiKeyAuth env apiKey =
     (case findByKey (api_keys env) apiKey of
        None \<Rightarrow> unauthenticated
      | Some keyRecord \<Rightarrow>
          if checkAndDeleteExpiredApiKey env keyRecord then unauthenticated
          else if \<not> updateLastUsed_ok env (k_id keyRecord) then unauthenticated
          else apiKey_result keyRecord apiKey)"

text \<open>
  \<open>AuthService.checkPathPermission(authResult, requestPath)\<close>. \<open>chk\<close> is
  \<open>PermissionUtils.checkPathPermission(basicPath, requestPath)\<close>, the path-permission
  predicate, which lives in a file that is not among the sources.
\<close>

definition auth_checkPathPermission ::
  "(string \<Rightarrow> string \<Rightarrow> bool) \<Rightarrow> auth_result \<Rightarrow> string \<Rightarrow> bool" where
  "auth_checkPathPermission chk authResult requestPath =
     (if \<not> ar_isAuthenticated authResult then False
      else if isAdmin authResult then True
      else if ar_authType authResult = ''apikey''
      then chk (js_or (Some (ar_basicPath authResult)) ''/'') requestPath
      else False)"

section \<open>The unified file-system routes (\<open>/api/fs/*\<close>)\<close>

text \<open>\<open>AuthResult.getUserId()\<close>: \<open>this.userId || this.adminId\<close>.\<close>

definition getUserId :: "auth_result \<Rightarrow> string option" where
  "getUserId r = (if truthy (ar_userId r) then ar_userId r else ar_adminId r)"

text \<open>
  The \<open>userInfo\<close> object that \<open>unifiedFsAuthMiddleware\<close> stores for the handlers:
  \<open>{type: "admin", id: authResult.getUserId(), hasFullAccess: true}\<close> for an administrator
  and \<open>{type: "apiKey", info: authResult.keyInfo, hasFullAccess: false}\<close> for another
  principal with the file permission; \<open>keyInfo\<close> is \<open>null\<close> (\<open>None\<close>) when the
  \<open>AuthResult\<close> was made without one.
\<close>

datatype userInfo = AdminUser "string option" | ApiKeyUser "key_info option"

fun hasFullAccess :: "userInfo \<Rightarrow> bool" where
  "hasFullAccess (AdminUser i) = True"
| "hasFullAccess (ApiKeyUser info) = False"

text \<open>
  \<open>unifiedFsAuthMiddleware\<close>, which runs before every handler of \<open>/api/fs/*\<close>, applied to
  the \<open>authResult\<close> of the context (\<open>None\<close> when there is none). \<open>Inl status\<close> is
  \<open>throw new HTTPException(status)\<close>; \<open>Inr userInfo\<close> is \<open>next()\<close> with the \<open>userInfo\<close> set.
\<close>

definition unifiedFsAuthMiddleware :: "auth_result option \<Rightarrow> ApiStatus + userInfo" where
  "unifiedFsAuthMiddleware authResult =
     (case authResult of
        None \<Rightarrow> Inl UNAUTHORIZED
      | Some r \<Rightarrow>
          if \<not> ar_isAuthenticated r then Inl UNAUTHORIZED
          else if isAdmin r then Inr (AdminUser (getUserId r))
          else if hasPermission r ''file'' then Inr (ApiKeyUser (ar_keyInfo r))
          else Inl FORBIDDEN)"

text \<open>
  The routes' \<open>checkPathPermission(userInfo, path)\<close>. \<open>chk\<close> is
  \<open>checkPathPermissionForOperation(basicPath, path)\<close> of apiKeyService.js, the
  path-permission predicate, which is not among the sources. \<open>None\<close> is the \<open>TypeError\<close> of
  \<open>userInfo.info.basicPath\<close> when \<open>info\<close> is \<open>null\<close>.
\<close>

fun checkPathPermission ::
  "(string \<Rightarrow> string \<Rightarrow> bool) \<Rightarrow> userInfo \<Rightarrow> string \<Rightarrow> bool option" where
  "checkPathPermission chk (AdminUser i) path = Some True"
| "checkPathPermission chk (ApiKeyUser None) path = None"
| "checkPathPermission chk (ApiKeyUser (Some info)) path = Some (chk (ki_basicPath info) path)"

text \<open>
  The calls a handler makes into the service layer (fsService.js, not among the sources),
  which is where the storage is reached. \<open>PresignUpload\<close> stands for the rest of the
  presign handler after its permission check: the mount lookup, the configuration lookup and
  the signing of the URL.
\<close>

datatype fs_call =
    CreateDirectory string
  | UploadFile string bool
  | RemoveItem string
  | RenameItem string string
  | BatchRemoveItems "string list"
  | PresignUpload string string
  | UpdateFile string string
  | BatchCopyItems "(string \<times> string) list" bool

text \<open>How a call ends: it returns, it throws an \<open>HTTPException\<close>, or it throws something
  else. For \<open>PresignUpload\<close>, \<open>ThrowsHttp s\<close> also stands for an error response with
  status \<open>s\<close>.\<close>

datatype svc_outcome = Returns | ThrowsHttp ApiStatus | ThrowsOther

text \<open>The \<open>try { ... return success } catch (error) { ... }\<close> of every handler.\<close>

fun respond :: "svc_outcome \<Rightarrow> ApiStatus" where
  "respond Returns = SUCCESS"
| "respond (ThrowsHttp s) = s"
| "respond ThrowsOther = INTERNAL_ERROR"

text \<open>How a request ends: with a response of some status, or with an error that leaves the
  handler uncaught.\<close>

datatype fs_answer = Answer ApiStatus | Uncaught

text \<open>A field of a multipart form: a file or a string. \<open>!v\<close> holds for a missing field and
  for the empty string.\<close>

datatype form_entry = FormFile string "8 word list" | FormText string

fun present :: "form_entry option \<Rightarrow> bool" where
  "present None = False"
| "present (Some (FormText s)) = (s \<noteq> [])"
| "present (Some (FormFile n b)) = True"

text \<open>
  \<open>if (!checkPathPermission(userInfo, path)) return 403\<close>, with what follows it: a check
  that throws ends the request with \<open>thrown\<close>, a check that fails with FORBIDDEN.
\<close>

definition path_guard ::
  "bool option \<Rightarrow> fs_answer \<Rightarrow> fs_answer \<times> fs_call list \<Rightarrow> fs_answer \<times> fs_call list" where
  "path_guard permitted thrown continue =
     (case permitted of
        None \<Rightarrow> (thrown, [])
      | Some allowed \<Rightarrow> if allowed then continue else (Answer FORBIDDEN, []))"

text \<open>The loop \<open>for (const path of paths) { if (!checkPathPermission(userInfo, path))
  return 403 }\<close>: \<open>Some False\<close> at the first path that is refused, \<open>None\<close> when a check
  throws before that.\<close>

fun check_paths :: "(string \<Rightarrow> string \<Rightarrow> bool) \<Rightarrow> userInfo \<Rightarrow> string list \<Rightarrow> bool option" where
  "check_paths chk userInfo [] = Some True"
| "check_paths chk userInfo (path # paths) =
     (case checkPathPermission chk userInfo path of
        None \<Rightarrow> None
      | Some allowed \<Rightarrow> if allowed then check_paths chk userInfo paths else Some False)"

text \<open>
  The handlers. A JSON or query field is a \<open>string option\<close> (\<open>None\<close> when it is absent);
  the result is the answer and the service calls made. The handlers of upload and presign
  check the path inside their \<open>try\<close>, whose \<open>catch\<close> answers INTERNAL_ERROR to an error that
  is not an \<open>HTTPException\<close>; the other handlers check it before their \<open>try\<close>.
\<close>

definition fs_mkdir ::
  "(string \<Rightarrow> string \<Rightarrow> bool) \<Rightarrow> (fs_call \<Rightarrow> svc_outcome) \<Rightarrow> userInfo \<Rightarrow> string option
   \<Rightarrow> fs_answer \<times> fs_call list" where
  "fs_mkdir chk svc userInfo path_field =
     (case path_field of
        None \<Rightarrow> (Answer BAD_REQUEST, [])
      | Some path \<Rightarrow>
          if path = [] then (Answer BAD_REQUEST, [])
          else path_guard (checkPathPermission chk userInfo path) Uncaught
                 (Answer (respond (svc (CreateDirectory path))), [CreateDirectory path]))"

definition fs_upload ::
  "(string \<Rightarrow> string \<Rightarrow> bool) \<Rightarrow> (fs_call \<Rightarrow> svc_outcome) \<Rightarrow> userInfo
   \<Rightarrow> form_entry option \<Rightarrow> string option \<Rightarrow> bool \<Rightarrow> fs_answer \<times> fs_call list" where
  "fs_upload chk svc userInfo file path_field useMultipart =
     (case path_field of
        None \<Rightarrow> (Answer BAD_REQUEST, [])
      | Some path \<Rightarrow>
          if \<not> present file \<or> path = [] then (Answer BAD_REQUEST, [])
          else path_guard (checkPathPermission chk userInfo path) (Answer INTERNAL_ERROR)
                 (Answer (respond (svc (UploadFile path useMultipart))),
                  [UploadFile path useMultipart]))"

definition fs_remove ::
  "(string \<Rightarrow> string \<Rightarrow> bool) \<Rightarrow> (fs_call \<Rightarrow> svc_outcome) \<Rightarrow> userInfo \<Rightarrow> string option
   \<Rightarrow> fs_answer \<times> fs_call list" where
  "fs_remove chk svc userInfo path_field =
     (case path_field of
        None \<Rightarrow> (Answer BAD_REQUEST, [])
      | Some path \<Rightarrow>
          if path = [] then (Answer BAD_REQUEST, [])
          else path_guard (checkPathPermission chk userInfo path) Uncaught
                 (Answer (respond (svc (RemoveItem path))), [RemoveItem path]))"

definition fs_rename ::
  "(string \<Rightarrow> string \<Rightarrow> bool) \<Rightarrow> (fs_call \<Rightarrow> svc_outcome) \<Rightarrow> userInfo
   \<Rightarrow> string option \<Rightarrow> string option \<Rightarrow> fs_answer \<times> fs_call list" where
  "fs_rename chk svc userInfo oldPath_field newPath_field =
     (case (oldPath_field, newPath_field) of
        (Some oldPath, Some newPath) \<Rightarrow>
          if oldPath = [] \<or> newPath = [] then (Answer BAD_REQUEST, [])
          else path_guard (checkPathPermission chk userInfo oldPath) Uncaught
                 (path_guard (checkPathPermission chk userInfo newPath) Uncaught
                    (Answer (respond (svc (RenameItem oldPath newPath))),
                     [RenameItem oldPath newPath]))
      | _ \<Rightarrow> (Answer BAD_REQUEST, []))"

definition fs_batch_remove ::
  "(string \<Rightarrow> string \<Rightarrow> bool) \<Rightarrow> (fs_call \<Rightarrow> svc_outcome) \<Rightarrow> userInfo
   \<Rightarrow> string list option \<Rightarrow> fs_answer \<times> fs_call list" where
  "fs_batch_remove chk svc userInfo paths_field =
     (case paths_field of
        None \<Rightarrow> (Answer BAD_REQUEST, [])
      | Some paths \<Rightarrow>
          if length paths = 0 then (Answer BAD_REQUEST, [])
          else path_guard (if hasFullAccess userInfo then Some True
                           else check_paths chk userInfo paths) Uncaught
                 (Answer (respond (svc (BatchRemoveItems paths))), [BatchRemoveItems paths]))"

text \<open>\<open>path.endsWith("/") ? path + fileName : path + "/" + fileName\<close>.\<close>

definition tempTargetPath :: "string \<Rightarrow> string \<Rightarrow> string" where
  "tempTargetPath path fileName =
     (if path \<noteq> [] \<and> last path = CHR ''/'' then path @ fileName else path @ ''/'' @ fileName)"

definition fs_presign ::
  "(string \<Rightarrow> string \<Rightarrow> bool) \<Rightarrow> (fs_call \<Rightarrow> svc_outcome) \<Rightarrow> userInfo
   \<Rightarrow> string option \<Rightarrow> string option \<Rightarrow> fs_answer \<times> fs_call list" where
  "fs_presign chk svc userInfo path_field fileName_field =
     (case (path_field, fileName_field) of
        (Some path, Some fileName) \<Rightarrow>
          if path = [] \<or> fileName = [] then (Answer BAD_REQUEST, [])
          else path_guard (checkPathPermission chk userInfo (tempTargetPath path fileName))
                 (Answer INTERNAL_ERROR)
                 (Answer (respond (svc (PresignUpload path fileName))),
                  [PresignUpload path fileName])
      | _ \<Rightarrow> (Answer BAD_REQUEST, []))"

text \<open>The update handler tests \<open>!path || content === undefined\<close>: a content that is the
  empty string passes.\<close>

definition fs_update ::
  "(string \<Rightarrow> string \<Rightarrow> bool) \<Rightarrow> (fs_call \<Rightarrow> svc_outcome) \<Rightarrow> userInfo
   \<Rightarrow> string option \<Rightarrow> string option \<Rightarrow> fs_answer \<times> fs_call list" where
  "fs_update chk svc userInfo path_field content_field =
     (case (path_field, content_field) of
        (Some path, Some content) \<Rightarrow>
          if path = [] then (Answer BAD_REQUEST, [])
          else path_guard (checkPathPermission chk userInfo path) Uncaught
                 (Answer (respond (svc (UpdateFile path content))), [UpdateFile path content])
      | _ \<Rightarrow> (Answer BAD_REQUEST, []))"

text \<open>The batch-copy handler checks \<open>item.sourcePath\<close> and then \<open>item.targetPath\<close> of every
  item in turn.\<close>

definition fs_batch_copy ::
  "(string \<Rightarrow> string \<Rightarrow> bool) \<Rightarrow> (fs_call \<Rightarrow> svc_outcome) \<Rightarrow> userInfo
   \<Rightarrow> (string \<times> string) list option \<Rightarrow> bool \<Rightarrow> fs_answer \<times> fs_call list" where
  "fs_batch_copy chk svc userInfo items_field skipExisting =
     (case items_field of
        None \<Rightarrow> (Answer BAD_REQUEST, [])
      | Some items \<Rightarrow>
          if length items = 0 then (Answer BAD_REQUEST, [])
          else path_guard
                 (if hasFullAccess userInfo then Some True
                  else check_paths chk userInfo
                         (concat (map (\<lambda>(sourcePath, targetPath). [sourcePath, targetPath])
                                    items))) Uncaught
                 (Answer (respond (svc (BatchCopyItems items skipExisting))),
                  [BatchCopyItems items skipExisting]))"

text \<open>
  A route of \<open>/api/fs/*\<close>: \<open>fsRoutes.use("/api/fs/*", baseAuthMiddleware,
  unifiedFsAuthMiddleware)\<close> and then the handler. The \<open>HTTPException\<close> thrown by the
  middleware is answered with its status, before any handler runs.
\<close>

definition fs_route ::
  "auth_result option \<Rightarrow> (userInfo \<Rightarrow> fs_answer \<times> fs_call list) \<Rightarrow> fs_answer \<times> fs_call list" where
  "fs_route authResult handler =
     (case unifiedFsAuthMiddleware authResult of
        Inl status \<Rightarrow> (Answer status, [])
      | Inr userInfo \<Rightarrow> handler userInfo)"

section \<open>WebDAV PUT (\<open>handlePut\<close>)\<close>

text \<open>\<open>s.toLowerCase()\<close> on the ASCII letters, and \<open>s.includes(sub)\<close>.\<close>

definition toLowerCase :: "string \<Rightarrow> string" where
  "toLowerCase s =
     map (\<lambda>c. let n = (of_char c :: nat) in if 65 \<le> n \<and> n \<le> 90 then char_of (n + 32) else c) s"

fun js_includes :: "string \<Rightarrow> string \<Rightarrow> bool" where
  "js_includes [] sub = (sub = [])"
| "js_includes (c # cs) sub = (prefix sub (c # cs) \<or> js_includes cs sub)"

text \<open>
  \<open>parseInt(s, 10)\<close>: leading (ASCII) white space is skipped, a sign is read, then the
  longest run of decimal digits; \<open>None\<close> is \<open>NaN\<close> (no digit).
\<close>

definition is_space :: "char \<Rightarrow> bool" where
  "is_space c = ((of_char c :: nat) \<in> {9, 10, 11, 12, 13, 32})"

definition is_digit :: "char \<Rightarrow> bool" where
  "is_digit c = (48 \<le> (of_char c :: nat) \<and> (of_char c :: nat) \<le> 57)"

definition digits_value :: "string \<Rightarrow> nat" where
  "digits_value ds = foldl (\<lambda>acc c. 10 * acc + ((of_char c :: nat) - 48)) 0 ds"

definition parseInt10 :: "string \<Rightarrow> int option" where
  "parseInt10 s =
     (let t = dropWhile is_space s;
          negative = (t \<noteq> [] \<and> hd t = CHR ''-'');
          u = (if t \<noteq> [] \<and> (hd t = CHR ''-'' \<or> hd t = CHR ''+'') then tl t else t);
          ds = takeWhile is_digit u
      in if ds = [] then None
         else Some (if negative then - int (digits_value ds) else int (digits_value ds)))"

text \<open>The headers of a PUT request that \<open>handlePut\<close> reads, and its body: the chunks the
  stream delivers, or \<open>None\<close> when \<open>c.req.body\<close> is null.\<close>

record put_request =
  pr_If :: "string option"
  pr_ContentLength :: "string option"
  pr_TransferEncoding :: "string option"
  pr_body :: "8 word list list option"

text \<open>What \<open>mountManager.getDriverByPath\<close> gives: the mount's id (if any), whether the
  driver has an S3 client, its bucket name, and the key that
  \<open>driver._normalizeFilePath(subPath, path, filename)\<close> computes.\<close>

record driver_lookup =
  gd_mount :: "string option"
  gd_hasS3Client :: bool
  gd_bucket :: "string option"
  gd_s3Key :: string

text \<open>
  The collaborators of \<open>handlePut\<close>: \<open>checkLockPermission\<close> (the status of the lock
  conflict, if any), \<open>getMimeTypeFromFilename\<close> (fileUtils.js, a lookup in tables of MIME
  types that are not reproduced), the value of the setting \<open>webdav_upload_mode\<close> (\<open>None\<close>
  when the lookup throws or finds none), whether \<open>fileSystem.uploadFile\<close> returns,
  \<open>getDriverByPath\<close> (\<open>None\<close> when it throws), whether \<open>clearDirectoryCache\<close> returns, and
  \<open>Upload\<close> of the AWS SDK (\<open>@aws-sdk/lib-storage\<close>). \<open>upload_done\<close> is \<open>upload.done()\<close> of
  an \<open>Upload\<close> made with the bucket, the key, the content type, \<open>queueSize\<close>, \<open>partSize\<close>
  and the body stream (the chunks it delivers): whether it returns, and the requests the
  library has sent to the object store. Which requests those are is the library's choice,
  not \<open>handlePut\<close>'s.
\<close>

datatype sdk_request =
    SdkPutObject string string "8 word list" string
  | SdkCreateMultipartUpload string string string
  | SdkUploadPart string string nat "8 word list"
  | SdkCompleteMultipartUpload string string
  | SdkAbortMultipartUpload string string

record put_env =
  checkLockPermission :: "string \<Rightarrow> string option \<Rightarrow> nat option"
  getMimeTypeFromFilename :: "string \<Rightarrow> string"
  webdav_upload_mode :: "string option"
  uploadFile_ok :: "string \<Rightarrow> bool"
  getDriverByPath :: "string \<Rightarrow> driver_lookup option"
  clearDirectoryCache_ok :: bool
  upload_done ::
    "string \<Rightarrow> string \<Rightarrow> string \<Rightarrow> nat \<Rightarrow> nat \<Rightarrow> 8 word list list
     \<Rightarrow> bool \<times> sdk_request list"

text \<open>
  What \<open>handlePut\<close> does to the storage: \<open>fileSystem.uploadFile(path, file, ...,
  {useMultipart})\<close> with the file's bytes and type, the driver lookup, the cache clearing,
  \<open>new Upload({Bucket, Key, Body: stream, ContentType, queueSize: 3, partSize: 5 MiB})\<close>
  of \<open>@aws-sdk/lib-storage\<close> with its bucket, key and content type, and the requests that
  this \<open>Upload\<close> sends to the object store.
\<close>

datatype put_event =
    FsUploadFile string "8 word list" string bool
  | GetDriverByPath string
  | ClearDirectoryCache string
  | LibStorageUpload string string string
  | SdkRequest sdk_request

text \<open>The events that carry the body: a call of \<open>fileSystem.uploadFile\<close>, an \<open>Upload\<close>
  and the requests the \<open>Upload\<close> sends.\<close>

fun is_upload :: "put_event \<Rightarrow> bool" where
  "is_upload (FsUploadFile p d t m) = True"
| "is_upload (LibStorageUpload b k t) = True"
| "is_upload (SdkRequest r) = True"
| "is_upload (GetDriverByPath p) = False"
| "is_upload (ClearDirectoryCache m) = False"

text \<open>The response: a status set by \<open>handlePut\<close> itself, or whatever
  \<open>handleWebDAVError\<close> (errorUtils.js) makes of a thrown error.\<close>

datatype put_outcome = Status nat | HandledError

text \<open>
  The upload through \<open>fileSystem.uploadFile\<close> with \<open>useMultipart: false\<close>, followed by
  the cache clearing and the response 201: the text shared by the empty-file branch and the
  direct-upload branch.
\<close>

definition upload_directly ::
  "put_env \<Rightarrow> string \<Rightarrow> 8 word list \<Rightarrow> string \<Rightarrow> put_outcome \<times> put_event list" where
  "upload_directly env path fileData contentType =
     (if \<not> uploadFile_ok env path
      then (HandledError, [FsUploadFile path fileData contentType False])
      else case getDriverByPath env path of
             None \<Rightarrow>
               (HandledError, [FsUploadFile path fileData contentType False, GetDriverByPath path])
           | Some found \<Rightarrow>
               (case gd_mount found of
                  None \<Rightarrow>
                    (Status 201,
                     [FsUploadFile path fileData contentType False, GetDriverByPath path])
                | Some mountId \<Rightarrow>
                    (if clearDirectoryCache_ok env then Status 201 else HandledError,
                     [FsUploadFile path fileData contentType False, GetDriverByPath path,
                      ClearDirectoryCache mountId])))"

text \<open>
  \<open>trueStreamingUpload\<close>: the driver is looked up again, the S3 client and the bucket name
  are required, and the request stream is handed to an \<open>Upload\<close> with \<open>queueSize: 3\<close> and
  \<open>partSize: 5 * 1024 * 1024\<close>, whose \<open>done()\<close> is awaited. \<open>False\<close> when it throws.
\<close>

definition trueStreamingUpload ::
  "put_env \<Rightarrow> string \<Rightarrow> string \<Rightarrow> string \<Rightarrow> 8 word list list
   \<Rightarrow> bool \<times> put_event list" where
  "trueStreamingUpload env path key contentType stream =
     (case getDriverByPath env path of
        None \<Rightarrow> (False, [GetDriverByPath path])
      | Some found \<Rightarrow>
          if \<not> gd_hasS3Client found then (False, [GetDriverByPath path])
          else (case gd_bucket found of
                  None \<Rightarrow> (False, [GetDriverByPath path])
                | Some bucketName \<Rightarrow>
                    if bucketName = [] then (False, [GetDriverByPath path])
                    else
                      let done = upload_done env bucketName key contentType 3 (5 * 1024 * 1024)
                                   stream
                      in (fst done,
                          [GetDriverByPath path, LibStorageUpload bucketName key contentType]
                          @ map SdkRequest (snd done))))"

text \<open>The branch \<open>if (!shouldUseDirect)\<close>: the key is built from the driver and the stream
  goes to \<open>trueStreamingUpload\<close>; then the cache is cleared and 201 is answered.\<close>

definition upload_streaming ::
  "put_env \<Rightarrow> string \<Rightarrow> string \<Rightarrow> 8 word list list \<Rightarrow> put_outcome \<times> put_event list" where
  "upload_streaming env path contentType bodyStream =
     (case getDriverByPath env path of
        None \<Rightarrow> (HandledError, [GetDriverByPath path])
      | Some found \<Rightarrow>
          let streamed = trueStreamingUpload env path (gd_s3Key found) contentType bodyStream
          in if \<not> fst streamed then (HandledError, GetDriverByPath path # snd streamed)
             else (case gd_mount found of
                     None \<Rightarrow> (Status 201, GetDriverByPath path # snd streamed)
                   | Some mountId \<Rightarrow>
                       (if clearDirectoryCache_ok env then Status 201 else HandledError,
                        GetDriverByPath path # snd streamed @ [ClearDirectoryCache mountId])))"

text \<open>\<open>transferEncoding && transferEncoding.toLowerCase().includes("chunked")\<close>.\<close>

definition isChunked :: "put_request \<Rightarrow> bool" where
  "isChunked req =
     (case pr_TransferEncoding req of
        None \<Rightarrow> False
      | Some te \<Rightarrow> te \<noteq> [] \<and> js_includes (toLowerCase te) ''chunked'')"

text \<open>\<open>emptyBodyCheck\<close>: with a Content-Length header, whether it parses to 0; without
  one, false for a chunked request and true otherwise.\<close>

definition emptyBodyCheck :: "put_request \<Rightarrow> bool" where
  "emptyBodyCheck req =
     (case pr_ContentLength req of
        Some contentLength \<Rightarrow> parseInt10 contentLength = Some 0
      | None \<Rightarrow> if isChunked req then False else True)"

text \<open>
  \<open>handlePut(c, path, ...)\<close>, in the version of put.js that works through \<open>FileSystem\<close>
  and chooses between its upload modes by the setting \<open>webdav_upload_mode\<close>, read with
  \<open>getSettingMetadata\<close>. The upload mode is \<open>"direct"\<close> unless the setting has another
  non-empty value.
\<close>

definition handlePut :: "put_env \<Rightarrow> string \<Rightarrow> put_request \<Rightarrow> put_outcome \<times> put_event list" where
  "handlePut env path req =
     (case checkLockPermission env path (pr_If req) of
        Some status \<Rightarrow> (Status status, [])
      | None \<Rightarrow>
          let filename = last (split_slash path);
              contentType = getMimeTypeFromFilename env filename;
              webdavUploadMode = js_or (webdav_upload_mode env) ''direct'';
              shouldUseDirect = (webdavUploadMode = ''direct'')
          in if emptyBodyCheck req then upload_directly env path [] contentType
             else if shouldUseDirect then
               (case pr_body req of
                  None \<Rightarrow> (Status 400, [])
                | Some chunks \<Rightarrow> upload_directly env path (concat chunks) contentType)
             else
               (case pr_body req of
                  None \<Rightarrow> (Status 400, [])
                | Some chunks \<Rightarrow> upload_streaming env path contentType chunks))"

section \<open>Concrete inputs used by the closed theorems\<close>

definition ok_response :: s3_response where
  "ok_response = \<lparr> ContentType = Some ''text/plain'', ContentLength = Some 5,
                    LastModified = Some ''2024-01-01T00:00:00.000Z'', ETag = Some ''\"abc\"'' \<rparr>"

definition always_ok :: s3_client where
  "always_ok c = Inr ok_response"

definition no_parents :: "string \<Rightarrow> s3_error option \<times> s3_command list" where
  "no_parents k = (None, [])"

definition demo_mime :: "string \<Rightarrow> string" where
  "demo_mime f = (if take 4 (rev f) = ''txt.'' then ''text/plain'' else ''application/octet-stream'')"

definition head_blocked :: s3_client where
  "head_blocked c = (case c of
      HeadObject k \<Rightarrow> Inl \<lparr> httpStatusCode = Some 403, error_name = ''Forbidden'' \<rparr>
    | GetObject k r \<Rightarrow> Inl \<lparr> httpStatusCode = Some 404, error_name = ''NoSuchKey'' \<rparr>
    | _ \<Rightarrow> Inr ok_response)"

definition target_free :: s3_client where
  "target_free c = (if c = HeadObject ''docs/b.txt''
      then Inl \<lparr> httpStatusCode = Some 404, error_name = ''NotFound'' \<rparr>
      else Inr ok_response)"

text \<open>A signer that writes what it is given into the URL: the bucket, the key, whether the
  disposition is inline, and the option \<open>expiresIn\<close> as JavaScript prints it. The storage
  configuration below has a configured expiry of 86400 seconds.\<close>

fun decimal :: "nat \<Rightarrow> string" where
  "decimal n = (if n < 10 then [''0123456789'' ! n]
                else decimal (n div 10) @ [''0123456789'' ! (n mod 10)])"

declare decimal.simps [simp del]

fun expiry_text :: "js_expiry \<Rightarrow> string" where
  "expiry_text ExpiryUndefined = ''undefined''"
| "expiry_text ExpiryNull = ''null''"
| "expiry_text (ExpirySeconds n) = decimal n"

definition demo_getSignedUrl :: "get_object_params \<Rightarrow> js_expiry \<Rightarrow> string option" where
  "demo_getSignedUrl command expiresIn =
     Some (''https://'' @ gp_Bucket command @ ''.s3/'' @ gp_Key command
           @ (if take 6 (gp_ResponseContentDisposition command) = ''inline''
              then ''?inline'' else ''?dl'')
           @ ''&X-Amz-Expires='' @ expiry_text expiresIn)"

definition demo_env :: fs_env where
  "demo_env = \<lparr> GetFileType = (\<lambda>f. 1), getFileTypeName = (\<lambda>f. ''text''), FOLDER = 0,
      FOLDER_NAME = ''folder'', now = ''2024-06-01T00:00:00.000Z'',
      config = \<lparr> bucket_name = ''bucket'', defaultSignedTtl = Some 86400 \<rparr>,
      fileUtils = \<lparr> fu_shouldUseTextPlainForPreview = (\<lambda>m f. False),
                    fu_getMimeTypeFromFilename = demo_mime,
                    fu_getMimeTypeGroup = (\<lambda>m. ''text'') \<rparr>,
      createS3Client_ok = True,
      getSignedUrl = demo_getSignedUrl \<rparr>"


definition demo_mount :: mount_info where
  "demo_mount = \<lparr> mount_id = ''m1'', storage_type = ''S3'', web_proxy = True, cache_ttl = 300 \<rparr>"



text \<open>The capacity scenario of the spec: a limit of 100 bytes, 40 bytes in use, a 70-byte
  upload being committed by the administrator who created it.\<close>

definition demo_config :: s3_config where
  "demo_config = \<lparr> cfg_id = ''cfg1'', total_storage_bytes = Some 100 \<rparr>"

definition demo_files :: "file_record list" where
  "demo_files =
     [\<lparr> f_id = ''old'', f_s3_config_id = ''cfg1'', f_storage_path = ''old.bin'',
        f_size = Some 40, f_created_by = Some ''admin1'' \<rparr>,
      \<lparr> f_id = ''new'', f_s3_config_id = ''cfg1'', f_storage_path = ''new.bin'',
        f_size = Some 0, f_created_by = Some ''admin1'' \<rparr>]"

definition demo_commit_env :: commit_env where
  "demo_commit_env =
     \<lparr> db_files = demo_files,
       findByIdAndAdmin = (\<lambda>i a. if i = ''cfg1'' then Some demo_config else None),
       findPublicById = (\<lambda>i. if i = ''cfg1'' then Some demo_config else None),
       finish = (\<lambda>f. SUCCESS) \<rparr>"

definition demo_admin :: auth_info where
  "demo_admin = \<lparr> a_isAdmin = True, a_userId = ''admin1'', a_authType = ''admin'' \<rparr>"

definition demo_commit_body :: commit_body where
  "demo_commit_body = \<lparr> b_file_id = Some ''new'', b_size = Some 70 \<rparr>"

text \<open>A mount at \<open>/docs\<close> whose bucket holds the directory \<open>docs/\<close> only, and a
  request path under which no mount is found.\<close>

definition demo_mkcol_env :: mkcol_env where
  "demo_mkcol_env =
     \<lparr> mk_mountResult = MountFound ''m1'' ''cfg1'' ''/new/'',
       mk_s3ConfigExists = (\<lambda>i. i = ''cfg1''),
       mk_createS3Client_ok = True,
       mk_normalizeS3SubPath = (\<lambda>p. ''docs'' @ p),
       mk_checkDirectoryExists = (\<lambda>k. Some (k = ''docs/'')),
       mk_put_ok = (\<lambda>k. True),
       mk_clearCache_ok = True,
       mk_updateMountLastUsed_ok = True \<rparr>"

definition no_mount_env :: mkcol_env where
  "no_mount_env = demo_mkcol_env \<lparr> mk_mountResult := MountError 404 \<rparr>"

text \<open>One administrator and two API keys: one with the mount permission and the base path
  \<open>/team-a\<close>, one without the mount permission. No key is expired.\<close>

definition team_key :: key_record where
  "team_key = \<lparr> k_id = ''k1'', k_name = ''team a'', k_key = ''key-team-a'',
                 k_basic_path = Some ''/team-a'', k_text_permission = SqlInt 0,
                 k_file_permission = SqlInt 1, k_mount_permission = SqlInt 1 \<rparr>"

definition file_only_key :: key_record where
  "file_only_key = \<lparr> k_id = ''k2'', k_name = ''uploads'', k_key = ''key-files'',
                      k_basic_path = Some ''/'', k_text_permission = SqlInt 1,
                      k_file_permission = SqlInt 1, k_mount_permission = SqlInt 0 \<rparr>"

text \<open>A key whose mount permission is stored as the text \<open>"1"\<close>.\<close>

definition text_flag_key :: key_record where
  "text_flag_key = \<lparr> k_id = ''k3'', k_name = ''imported'', k_key = ''key-imported'',
                      k_basic_path = None, k_text_permission = SqlInt 0,
                      k_file_permission = SqlInt 1, k_mount_permission = SqlText ''1'' \<rparr>"

definition demo_auth_env :: auth_env where
  "demo_auth_env =
     \<lparr> findByUsername =
         (\<lambda>u. if u = ''root'' then Some \<lparr> adm_id = ''a1'', adm_password = ''hash'' \<rparr> else None),
       verifyPassword = (\<lambda>p h. p = ''secret'' \<and> h = ''hash''),
       api_keys = [team_key, file_only_key, text_flag_key],
       checkAndDeleteExpiredApiKey = (\<lambda>r. False),
       updateLastUsed_ok = (\<lambda>i. True) \<rparr>"

text \<open>The same database when the write of the last-used time fails.\<close>

definition readonly_auth_env :: auth_env where
  "readonly_auth_env =
     \<lparr> findByUsername =
         (\<lambda>u. if u = ''root'' then Some \<lparr> adm_id = ''a1'', adm_password = ''hash'' \<rparr> else None),
       verifyPassword = (\<lambda>p h. p = ''secret'' \<and> h = ''hash''),
       api_keys = [team_key, file_only_key, text_flag_key],
       checkAndDeleteExpiredApiKey = (\<lambda>r. False),
       updateLastUsed_ok = (\<lambda>i. False) \<rparr>"

text \<open>
  Modelled from the spec: the path-permission predicate itself
  (\<open>checkPathPermissionForOperation\<close>) is not among the sources. The spec writes it
  \<open>A \<sqsubseteq> p\<close>, the allowed prefix \<open>A\<close> is a prefix of the path \<open>p\<close>. It is used for the
  concrete requests below only; the theorems hold for every predicate.
\<close>

definition prefix_chk :: "string \<Rightarrow> string \<Rightarrow> bool" where
  "prefix_chk A p = (take (length A) p = A)"

definition team_info :: key_info where
  "team_info = \<lparr> ki_id = ''k1'', ki_name = ''team a'', ki_key = ''key-team-a'',
                  ki_basicPath = ''/team-a'',
                  ki_permissions = [(''text'', False), (''file'', True), (''mount'', True),
                                    (''admin'', False)] \<rparr>"

text \<open>The principal of the key \<open>key-team-a\<close>.\<close>

definition team_auth :: auth_result where
  "team_auth = apiKey_result team_key ''key-team-a''"

definition svc_ok :: "fs_call \<Rightarrow> svc_outcome" where
  "svc_ok c = Returns"

text \<open>
  An \<open>Upload\<close> that behaves as \<open>@aws-sdk/lib-storage\<close> does: a body that ends within the
  first part is sent with one PutObject; a longer body is sent as a multipart upload, with
  CreateMultipartUpload, one UploadPart for every \<open>partSize\<close> bytes and for the rest, and
  CompleteMultipartUpload.
\<close>

definition lib_storage_upload ::
  "string \<Rightarrow> string \<Rightarrow> string \<Rightarrow> nat \<Rightarrow> nat \<Rightarrow> 8 word list list
   \<Rightarrow> bool \<times> sdk_request list" where
  "lib_storage_upload bucket key contentType queueSize partSize stream =
     (let body = concat stream
      in if length body < partSize
         then (True, [SdkPutObject bucket key body contentType])
         else (True,
               [SdkCreateMultipartUpload bucket key contentType]
               @ map (\<lambda>i. SdkUploadPart bucket key (i + 1)
                                 (take partSize (drop (i * partSize) body)))
                     [0 ..< length body div partSize + 1]
               @ [SdkCompleteMultipartUpload bucket key]))"

text \<open>A server with no lock on the path and no value for \<open>webdav_upload_mode\<close>, a chunked
  request of three bytes without Content-Length, a request with \<open>Content-Length: 0\<close>, and
  the same server with the upload mode \<open>multipart\<close>.\<close>

definition demo_put_env :: put_env where
  "demo_put_env =
     \<lparr> checkLockPermission = (\<lambda>p i. None),
       getMimeTypeFromFilename = demo_mime,
       webdav_upload_mode = None,
       uploadFile_ok = (\<lambda>p. True),
       getDriverByPath = (\<lambda>p. Some \<lparr> gd_mount = Some ''m1'', gd_hasS3Client = True,
                                      gd_bucket = Some ''bucket'', gd_s3Key = ''docs/a.txt'' \<rparr>),
       clearDirectoryCache_ok = True,
       upload_done = lib_storage_upload \<rparr>"

definition chunked_request :: put_request where
  "chunked_request =
     \<lparr> pr_If = None, pr_ContentLength = None, pr_TransferEncoding = Some ''chunked'',
       pr_body = Some [[1, 2], [3]] \<rparr>"


definition multipart_put_env :: put_env where
  "multipart_put_env = demo_put_env \<lparr> webdav_upload_mode := Some ''multipart'' \<rparr>"

section \<open>Theorems\<close>

text \<open>
  C10. \<open>updateFile\<close> rejects content larger than 10 MiB (string length or byteLength) with
  HTTP 400 before any S3 command is sent. Content at or below the limit is written with a
  PutObject whose content type is inferred from the file name (from the object key when no
  file name is given), right after the HeadObject that reads the previous metadata; when
  that PutObject and the parent-directory update succeed, the result reports that MIME type.
\<close>

theorem updateFile_size_limit:
  "(content_size content > 10 * 1024 * 1024 \<longrightarrow>
      updateFile mime s3 parents key content fileName = (Inl (HTTPException BAD_REQUEST), [])
      \<and> status_code BAD_REQUEST = 400)
   \<and> (content_size content \<le> 10 * 1024 * 1024 \<longrightarrow>
      take 2 (snd (updateFile mime s3 parents key content fileName))
        = [HeadObject key, PutObject key content (mime (js_or fileName key))]
      \<and> (\<forall>r. s3 (PutObject key content (mime (js_or fileName key))) = Inr r
               \<and> fst (parents key) = None \<longrightarrow>
             (\<exists>res. fst (updateFile mime s3 parents key content fileName) = Inr res
                    \<and> upd_mimetype res = mime (js_or fileName key))))"
  by (auto simp: updateFile_def MAX_FILE_SIZE_def Let_def split: sum.splits prod.splits option.splits)

theorem updateFile_size_limit_witness:
  "updateFile demo_mime always_ok no_parents ''docs/a.txt''
      (StringContent (replicate 10485761 0)) None = (Inl (HTTPException BAD_REQUEST), [])
   \<and> take 2 (snd (updateFile demo_mime always_ok no_parents ''docs/a.txt''
        (ArrayBufferContent (replicate 10485760 0)) None))
      = [HeadObject ''docs/a.txt'',
         PutObject ''docs/a.txt'' (ArrayBufferContent (replicate 10485760 0)) ''text/plain'']"
  using updateFile_size_limit [of "StringContent (replicate 10485761 0)" demo_mime always_ok
          no_parents "''docs/a.txt''" None]
        updateFile_size_limit [of "ArrayBufferContent (replicate 10485760 0)" demo_mime always_ok
          no_parents "''docs/a.txt''" None]
  by (simp add: demo_mime_def)

subsection \<open>renameFile\<close>

text \<open>
  C8. \<open>renameFile\<close> first sends HeadObject for the source. With the source present, it
  fails with CONFLICT (HTTP 409) when the HeadObject of the target succeeds, after these two
  commands only. When the target's HeadObject answers 404, it sends CopyObject to the new
  key and then, only if that copy succeeded, DeleteObject of the old key: a failed copy ends
  the operation with an error and the source untouched. Whenever a DeleteObject of the source
  is sent at all, the successful CopyObject precedes it.
\<close>

theorem renameFile_head_copy_delete:
  "take 1 (snd (renameFile s3 old new)) = [HeadObject old]
   \<and> (\<forall>src tgt. s3 (HeadObject old) = Inr src \<and> s3 (HeadObject new) = Inr tgt \<longrightarrow>
        renameFile s3 old new = (Inl (HTTPException CONFLICT), [HeadObject old, HeadObject new]))
   \<and> status_code CONFLICT = 409
   \<and> (\<forall>src e. s3 (HeadObject old) = Inr src \<and> s3 (HeadObject new) = Inl e
              \<and> httpStatusCode e = Some 404 \<longrightarrow>
        take 3 (snd (renameFile s3 old new))
          = [HeadObject old, HeadObject new, CopyObject old new]
        \<and> ((\<exists>c. s3 (CopyObject old new) = Inr c) \<longrightarrow>
              snd (renameFile s3 old new)
                = [HeadObject old, HeadObject new, CopyObject old new, DeleteObject old])
        \<and> ((\<exists>ce. s3 (CopyObject old new) = Inl ce) \<longrightarrow>
              snd (renameFile s3 old new)
                = [HeadObject old, HeadObject new, CopyObject old new]
              \<and> fst (renameFile s3 old new) = Inl (HTTPException INTERNAL_ERROR)))
   \<and> (DeleteObject old \<in> set (snd (renameFile s3 old new)) \<longrightarrow>
        (\<exists>c. s3 (CopyObject old new) = Inr c)
        \<and> snd (renameFile s3 old new)
             = [HeadObject old, HeadObject new, CopyObject old new, DeleteObject old])"
  by (auto simp: renameFile_def Let_def split: sum.splits)

theorem renameFile_head_copy_delete_witness:
  "renameFile always_ok ''docs/a.txt'' ''docs/b.txt''
     = (Inl (HTTPException CONFLICT), [HeadObject ''docs/a.txt'', HeadObject ''docs/b.txt''])
   \<and> snd (renameFile target_free ''docs/a.txt'' ''docs/b.txt'')
     = [HeadObject ''docs/a.txt'', HeadObject ''docs/b.txt'',
        CopyObject ''docs/a.txt'' ''docs/b.txt'', DeleteObject ''docs/a.txt'']"
proof -
  have ok: "always_ok (HeadObject ''docs/a.txt'') = Inr ok_response
            \<and> always_ok (HeadObject ''docs/b.txt'') = Inr ok_response"
    by (simp add: always_ok_def)
  have free: "target_free (HeadObject ''docs/a.txt'') = Inr ok_response
            \<and> target_free (HeadObject ''docs/b.txt'')
                = Inl \<lparr> httpStatusCode = Some 404, error_name = ''NotFound'' \<rparr>
            \<and> httpStatusCode \<lparr> httpStatusCode = Some 404, error_name = ''NotFound'' \<rparr> = Some 404"
    by (simp add: target_free_def)
  have copied: "\<exists>c. target_free (CopyObject ''docs/a.txt'' ''docs/b.txt'') = Inr c"
    by (simp add: target_free_def)
  note T1 = renameFile_head_copy_delete [of always_ok "''docs/a.txt''" "''docs/b.txt''"]
  note T2 = renameFile_head_copy_delete [of target_free "''docs/a.txt''" "''docs/b.txt''"]
  have 1: "renameFile always_ok ''docs/a.txt'' ''docs/b.txt''
     = (Inl (HTTPException CONFLICT), [HeadObject ''docs/a.txt'', HeadObject ''docs/b.txt''])"
    using T1 ok by blast
  have 2: "snd (renameFile target_free ''docs/a.txt'' ''docs/b.txt'')
     = [HeadObject ''docs/a.txt'', HeadObject ''docs/b.txt'',
        CopyObject ''docs/a.txt'' ''docs/b.txt'', DeleteObject ''docs/a.txt'']"
    using T2 free copied by blast
  show ?thesis using 1 2 by simp
qed

subsection \<open>getFileInfo\<close>

text \<open>The parts of the stat operation that hold on every path through \<open>getFileInfo\<close>:
  HeadObject comes first, a 405 or 403 answer is followed by a GetObject of the first byte,
  the content type \<open>application/x-directory\<close> makes a directory of size 0, and a 404 answer
  to the HeadObject is the NOT_FOUND error.\<close>

lemma getFileInfo_head_first:
  "take 1 (snd (getFileInfo env s3 drv mount path key ut uid)) = [HeadObject key]"
  by (simp add: getFileInfo_def split: sum.splits)

lemma getFileInfo_fallback:
  "s3 (HeadObject key) = Inl e \<Longrightarrow> httpStatusCode e = Some 405 \<or> httpStatusCode e = Some 403 \<Longrightarrow>
   snd (getFileInfo env s3 drv mount path key ut uid)
     = [HeadObject key, GetObject key (Some ''bytes=0-0'')]"
  by (auto simp add: getFileInfo_def split: sum.splits)

lemma getFileInfo_directory:
  "fst (getFileInfo env s3 drv mount path key ut uid) = Inr info \<Longrightarrow>
   (\<exists>r. (s3 (HeadObject key) = Inr r \<or> s3 (GetObject key (Some ''bytes=0-0'')) = Inr r)
        \<and> fi_isDirectory info = (ContentType r = Some ''application/x-directory'')
        \<and> (fi_isDirectory info \<longrightarrow> fi_size info = 0))"
  by (auto simp add: getFileInfo_def build_info_def Let_def split: sum.splits if_splits)

lemma getFileInfo_head_404:
  "s3 (HeadObject key) = Inl e \<Longrightarrow> httpStatusCode e = Some 404 \<Longrightarrow>
   getFileInfo env s3 drv mount path key ut uid = (Inl (HTTPException NOT_FOUND), [HeadObject key])"
  by (auto simp add: getFileInfo_def split: sum.splits)

text \<open>
  C5. The stat operation: HeadObject, fallback to GetObject with \<open>Range: bytes=0-0\<close> on
  405/403, directories by content type, and NOT_FOUND on a 404 from the object store. The
  last part fails on the fallback path: when the HeadObject is answered 403 and the GetObject
  that follows is answered 404, \<open>getFileInfo\<close> ends with INTERNAL_ERROR (HTTP 500), not
  with NOT_FOUND.
\<close>

theorem getFileInfo_fallback_404:
  "getFileInfo demo_env head_blocked None demo_mount ''/docs/a.txt'' ''docs/a.txt''
      (Some ''admin'') (Some ''1'')
     = (Inl (HTTPException INTERNAL_ERROR),
        [HeadObject ''docs/a.txt'', GetObject ''docs/a.txt'' (Some ''bytes=0-0'')])
   \<and> status_code INTERNAL_ERROR = 500"
  by (simp add: getFileInfo_def head_blocked_def)







subsection \<open>POST /api/url/commit\<close>

text \<open>What the capacity branch does, for every request that reaches it: the object's
  deletion is asked for, no row of the files table is deleted, and the answer is
  INTERNAL_ERROR.\<close>

lemma url_commit_over_capacity:
  assumes "b_file_id body = Some fid" and "fid \<noteq> []"
      and "findById (db_files env) fid = Some file"
      and "\<not> (a_isAdmin auth \<and> truthy (f_created_by file)
              \<and> f_created_by file \<noteq> Some (a_userId auth))"
      and "\<not> (a_authType auth = ''apikey'' \<and> truthy (f_created_by file)
              \<and> f_created_by file \<noteq> Some (''apikey:'' @ a_userId auth))"
      and "(if a_isAdmin auth then findByIdAndAdmin env (f_s3_config_id file) (a_userId auth)
            else findPublicById env (f_s3_config_id file)) = Some cfg"
      and "total_storage_bytes cfg = Some limit"
      and "getTotalSizeByS3ConfigExcludingFile (db_files env) (f_s3_config_id file) (f_id file)
             + (case b_size body of None \<Rightarrow> 0 | Some n \<Rightarrow> uint n) > limit"
  shows "url_commit env auth body
           = (INTERNAL_ERROR, [DeleteFileFromS3 (cfg_id cfg) (f_storage_path file)])"
  using assms by (simp add: url_commit_def Let_def)

text \<open>
  C2. A commit that exceeds \<open>total_storage_bytes\<close> is to be rejected as capacity exhausted,
  with the uploaded object deleted and the file record removed. In the capacity scenario of
  the spec (limit 100 bytes, 40 bytes in use, a 70-byte upload) the handler asks for the
  object's deletion and then fails in the record deletion: it answers INTERNAL_ERROR
  (HTTP 500) and the file record is not deleted.
\<close>

theorem url_commit_capacity_exceeded:
  "getTotalSizeByS3ConfigExcludingFile demo_files ''cfg1'' ''new'' = 40
   \<and> total_storage_bytes demo_config = Some 100
   \<and> b_size demo_commit_body = Some 70
   \<and> url_commit demo_commit_env demo_admin demo_commit_body
     = (INTERNAL_ERROR, [DeleteFileFromS3 ''cfg1'' ''new.bin''])
   \<and> DeleteFileRecord ''new''
        \<notin> set (snd (url_commit demo_commit_env demo_admin demo_commit_body))
   \<and> status_code INTERNAL_ERROR = 500"
  by (simp add: url_commit_def demo_commit_env_def demo_admin_def demo_commit_body_def
      demo_files_def demo_config_def findById_def getTotalSizeByS3ConfigExcludingFile_def)

subsection \<open>WebDAV MKCOL\<close>

lemma mkcol_store_201:
  "fst (mkcol_store env mountId key) = 201
     \<longleftrightarrow> mk_put_ok env key \<and> mk_clearCache_ok env \<and> mk_updateMountLastUsed_ok env"
  by (simp add: mkcol_store_def)

lemma mkcol_store_put:
  "PutDirectoryMarker key \<in> set (snd (mkcol_store env mountId key))"
  by (simp add: mkcol_store_def)

lemma mkcol_parent_check_201:
  "fst (mkcol_parent_check env mountId key) = 201
     \<longleftrightarrow> (CHR ''/'' \<in> set key \<and> parentPath_of key \<noteq> []
            \<longrightarrow> mk_checkDirectoryExists env (parentPath_of key) = Some True)
         \<and> mk_put_ok env key \<and> mk_clearCache_ok env \<and> mk_updateMountLastUsed_ok env"
  by (auto simp add: mkcol_parent_check_def Let_def mkcol_store_201 split: option.splits)

lemma mkcol_parent_check_put:
  "fst (mkcol_parent_check env mountId key) = 201 \<Longrightarrow>
   PutDirectoryMarker key \<in> set (snd (mkcol_parent_check env mountId key))"
  by (auto simp add: mkcol_parent_check_def Let_def mkcol_store_put split: option.splits if_splits)

text \<open>
  C6, as amended. Once the mount of the request path has been found, \<open>handleMkcol\<close>
  answers 415 whenever the request carries a non-empty body, before anything else is done.
  With an empty body, an existing storage configuration and an S3 client, it answers 405
  whenever the target collection already exists, after that one existence check. It answers
  201 when the target does not exist, its parent (if the key has one) exists, and the
  PutObject of the directory marker, the cache clearing and the last-used update all
  succeed; and a 201 is only ever answered for an empty body after the marker was written.
\<close>

theorem handleMkcol_statuses:
  assumes m: "mk_mountResult env = MountFound mountId cfgId subPath"
      and k: "key = validS3SubPath_of env subPath"
  shows "(body \<noteq> [] \<longrightarrow> handleMkcol env body = (415, []))
       \<and> (body = [] \<and> mk_s3ConfigExists env cfgId \<and> mk_createS3Client_ok env
            \<and> mk_checkDirectoryExists env key = Some True
            \<longrightarrow> handleMkcol env body = (405, [CheckDirectoryExists key]))
       \<and> (body = [] \<and> mk_s3ConfigExists env cfgId \<and> mk_createS3Client_ok env
            \<and> mk_checkDirectoryExists env key = Some False
            \<and> (CHR ''/'' \<in> set key \<and> parentPath_of key \<noteq> []
                  \<longrightarrow> mk_checkDirectoryExists env (parentPath_of key) = Some True)
            \<and> mk_put_ok env key \<and> mk_clearCache_ok env \<and> mk_updateMountLastUsed_ok env
            \<longrightarrow> fst (handleMkcol env body) = 201
                \<and> PutDirectoryMarker key \<in> set (snd (handleMkcol env body)))
       \<and> (fst (handleMkcol env body) = 201 \<longrightarrow>
             body = [] \<and> mk_put_ok env key
             \<and> PutDirectoryMarker key \<in> set (snd (handleMkcol env body)))"
proof (intro conjI impI)
  assume "body \<noteq> []"
  then show "handleMkcol env body = (415, [])"
    using m by (simp add: handleMkcol_def)
next
  assume "body = [] \<and> mk_s3ConfigExists env cfgId \<and> mk_createS3Client_ok env
            \<and> mk_checkDirectoryExists env key = Some True"
  then show "handleMkcol env body = (405, [CheckDirectoryExists key])"
    using m k by (simp add: handleMkcol_def Let_def)
next
  assume a: "body = [] \<and> mk_s3ConfigExists env cfgId \<and> mk_createS3Client_ok env
            \<and> mk_checkDirectoryExists env key = Some False
            \<and> (CHR ''/'' \<in> set key \<and> parentPath_of key \<noteq> []
                  \<longrightarrow> mk_checkDirectoryExists env (parentPath_of key) = Some True)
            \<and> mk_put_ok env key \<and> mk_clearCache_ok env \<and> mk_updateMountLastUsed_ok env"
  then have p: "fst (mkcol_parent_check env mountId key) = 201"
    by (simp add: mkcol_parent_check_201)
  have eq: "handleMkcol env body
              = (fst (mkcol_parent_check env mountId key),
                 CheckDirectoryExists key # snd (mkcol_parent_check env mountId key))"
    using a m k by (simp add: handleMkcol_def Let_def)
  show "fst (handleMkcol env body) = 201" by (simp add: eq p)
  show "PutDirectoryMarker key \<in> set (snd (handleMkcol env body))"
    by (simp add: eq mkcol_parent_check_put [OF p])
next
  assume s: "fst (handleMkcol env body) = 201"
  have b: "body = []"
    using s m by (cases "body = []") (simp_all add: handleMkcol_def)
  have c: "mk_s3ConfigExists env cfgId \<and> mk_createS3Client_ok env
           \<and> mk_checkDirectoryExists env key = Some False"
    using s m k b
    by (auto simp add: handleMkcol_def Let_def split: if_splits option.splits)
  have eq: "handleMkcol env body
              = (fst (mkcol_parent_check env mountId key),
                 CheckDirectoryExists key # snd (mkcol_parent_check env mountId key))"
    using b c m k by (simp add: handleMkcol_def Let_def)
  have p: "fst (mkcol_parent_check env mountId key) = 201"
    using s by (simp add: eq)
  show "body = []" by (rule b)
  show "mk_put_ok env key" using p by (simp add: mkcol_parent_check_201)
  show "PutDirectoryMarker key \<in> set (snd (handleMkcol env body))"
    by (simp add: eq mkcol_parent_check_put [OF p])
qed

theorem handleMkcol_statuses_witness:
  "handleMkcol demo_mkcol_env ''x'' = (415, [])
   \<and> fst (handleMkcol demo_mkcol_env []) = 201
   \<and> PutDirectoryMarker ''docs/new/'' \<in> set (snd (handleMkcol demo_mkcol_env []))"
proof -
  have m: "mk_mountResult demo_mkcol_env = MountFound ''m1'' ''cfg1'' ''/new/''"
    by (simp add: demo_mkcol_env_def)
  have k: "''docs/new/'' = validS3SubPath_of demo_mkcol_env ''/new/''"
    by (simp add: validS3SubPath_of_def demo_mkcol_env_def)
  have pp: "parentPath_of ''docs/new/'' = ''docs/''"
    by (simp add: parentPath_of_def lastIndexOf_def upt_rec)
  have h: "([]::string) = [] \<and> mk_s3ConfigExists demo_mkcol_env ''cfg1''
           \<and> mk_createS3Client_ok demo_mkcol_env
           \<and> mk_checkDirectoryExists demo_mkcol_env ''docs/new/'' = Some False
           \<and> (CHR ''/'' \<in> set ''docs/new/'' \<and> parentPath_of ''docs/new/'' \<noteq> []
                 \<longrightarrow> mk_checkDirectoryExists demo_mkcol_env (parentPath_of ''docs/new/'')
                      = Some True)
           \<and> mk_put_ok demo_mkcol_env ''docs/new/'' \<and> mk_clearCache_ok demo_mkcol_env
           \<and> mk_updateMountLastUsed_ok demo_mkcol_env"
    by (simp add: pp) (simp add: demo_mkcol_env_def)
  have 1: "handleMkcol demo_mkcol_env ''x'' = (415, [])"
    using handleMkcol_statuses [OF m k, of "''x''"] by simp
  have 2: "fst (handleMkcol demo_mkcol_env []) = 201
           \<and> PutDirectoryMarker ''docs/new/'' \<in> set (snd (handleMkcol demo_mkcol_env []))"
    using handleMkcol_statuses [OF m k, of "[]"] h by blast
  show ?thesis using 1 2 by simp
qed

text \<open>
  C6 as stated fails on its first part: a MKCOL with a non-empty body on a path for which
  the mount lookup reports an error (here 404) is answered with that error's status, not
  with 415.
\<close>

theorem handleMkcol_statuses_counterexample:
  "mk_mountResult no_mount_env = MountError 404
   \<and> handleMkcol no_mount_env ''x'' = (404, [])"
  by (simp add: handleMkcol_def no_mount_env_def demo_mkcol_env_def)

subsection \<open>Basic authentication\<close>

lemma credential_split:
  assumes "CHR '':'' \<notin> set username"
  shows "takeWhile (\<lambda>c. c \<noteq> CHR '':'') (username @ '':'' @ password) = username"
    and "tl (dropWhile (\<lambda>c. c \<noteq> CHR '':'') (username @ '':'' @ password)) = password"
    and "CHR '':'' \<in> set (username @ '':'' @ password)"
  using assms by (induction username) auto

lemma validateBasicAuth_cases:
  assumes "username \<noteq> []" and "CHR '':'' \<notin> set username" and "password \<noteq> []"
  shows "validateBasicAuth env (Some (username @ '':'' @ password)) =
     (case findByUsername env username of
        Some admin \<Rightarrow>
          if verifyPassword env password (adm_password admin) then
            \<lparr> ar_isAuthenticated = True, ar_authType = ''basic'',
              ar_userId = Some (adm_id admin),
              ar_permissions = full_permissions, ar_basicPath = ''/'',
              ar_keyInfo = None, ar_adminId = Some (adm_id admin),
              ar_isAdmin = True \<rparr>
          else basic_apiKey env username password
      | None \<Rightarrow> basic_apiKey env username password)"
  unfolding validateBasicAuth_def option.case Let_def
  using assms by (simp only: credential_split [OF assms(2)]) simp

lemma basic_apiKey_accepts:
  assumes "findByKey (api_keys env) username = Some keyRecord"
      and "\<not> checkAndDeleteExpiredApiKey env keyRecord"
      and "hasMountPermission (k_mount_permission keyRecord)"
      and "updateLastUsed_ok env (k_id keyRecord)"
  shows "basic_apiKey env username username = apiKey_result keyRecord (k_key keyRecord)"
  using assms by (simp add: basic_apiKey_def)

lemma is_one_iff: "is_one v = (v = SqlInt 1)"
  by (cases v) auto

lemma apiKey_result_permissions:
  "hasPermission (apiKey_result keyRecord key) ''text'' = (k_text_permission keyRecord = SqlInt 1)"
  "hasPermission (apiKey_result keyRecord key) ''file'' = (k_file_permission keyRecord = SqlInt 1)"
  "hasPermission (apiKey_result keyRecord key) ''mount''
     = (k_mount_permission keyRecord = SqlInt 1)"
  "\<not> hasPermission (apiKey_result keyRecord key) ''admin''"
  by (simp_all add: hasPermission_def apiKey_result_def key_permissions_def is_one_iff)

text \<open>
  C9, as amended. For a Basic credential \<open>username:password\<close> with both parts non-empty,
  the user name being what precedes the first colon:

  \<^item> if the user name names an admin account and the password verifies against it, the
    result is an authenticated admin principal with every permission and base path \<open>/\<close>;

  \<^item> if no admin account of that name verifies the password, the user name and the password
    are identical and equal an API key that is not expired and whose \<open>mount_permission\<close>
    column is the number 1, and the update of the key's last-used time succeeds, the result
    is an authenticated API-key principal that has the mount permission, has the text and
    the file permission exactly when the key's respective column is the number 1, has no
    admin permission, and has the key's base path, \<open>/\<close> when the key has none.
\<close>

theorem validateBasicAuth_principals:
  assumes u: "username \<noteq> []" "CHR '':'' \<notin> set username" and p: "password \<noteq> []"
  shows "(\<forall>admin. findByUsername env username = Some admin
              \<and> verifyPassword env password (adm_password admin) \<longrightarrow>
            (let r = validateBasicAuth env (Some (username @ '':'' @ password))
             in ar_isAuthenticated r \<and> isAdmin r \<and> ar_permissions r = full_permissions
                \<and> hasPermission r ''text'' \<and> hasPermission r ''file''
                \<and> hasPermission r ''mount'' \<and> hasPermission r ''admin''
                \<and> ar_basicPath r = ''/'' \<and> ar_userId r = Some (adm_id admin)))
       \<and> (\<forall>keyRecord. password = username
              \<and> findByKey (api_keys env) username = Some keyRecord
              \<and> \<not> checkAndDeleteExpiredApiKey env keyRecord
              \<and> k_mount_permission keyRecord = SqlInt 1
              \<and> updateLastUsed_ok env (k_id keyRecord)
              \<and> (\<forall>admin. findByUsername env username = Some admin
                     \<longrightarrow> \<not> verifyPassword env password (adm_password admin)) \<longrightarrow>
            (let r = validateBasicAuth env (Some (username @ '':'' @ password))
             in ar_isAuthenticated r \<and> ar_authType r = ''apikey'' \<and> \<not> isAdmin r
                \<and> hasPermission r ''mount''
                \<and> hasPermission r ''text'' = (k_text_permission keyRecord = SqlInt 1)
                \<and> hasPermission r ''file'' = (k_file_permission keyRecord = SqlInt 1)
                \<and> \<not> hasPermission r ''admin''
                \<and> ar_basicPath r = js_or (k_basic_path keyRecord) ''/''
                \<and> ar_userId r = Some (k_id keyRecord)))"
proof (intro conjI allI impI)
  fix admin
  assume a: "findByUsername env username = Some admin
              \<and> verifyPassword env password (adm_password admin)"
  show "let r = validateBasicAuth env (Some (username @ '':'' @ password))
        in ar_isAuthenticated r \<and> isAdmin r \<and> ar_permissions r = full_permissions
           \<and> hasPermission r ''text'' \<and> hasPermission r ''file''
           \<and> hasPermission r ''mount'' \<and> hasPermission r ''admin''
           \<and> ar_basicPath r = ''/'' \<and> ar_userId r = Some (adm_id admin)"
    unfolding validateBasicAuth_cases [OF u p] Let_def
    using a by (simp add: isAdmin_def hasPermission_def)
next
  fix keyRecord
  assume k: "password = username
              \<and> findByKey (api_keys env) username = Some keyRecord
              \<and> \<not> checkAndDeleteExpiredApiKey env keyRecord
              \<and> k_mount_permission keyRecord = SqlInt 1
              \<and> updateLastUsed_ok env (k_id keyRecord)
              \<and> (\<forall>admin. findByUsername env username = Some admin
                     \<longrightarrow> \<not> verifyPassword env password (adm_password admin))"
  then have b: "basic_apiKey env username password = apiKey_result keyRecord (k_key keyRecord)"
    using basic_apiKey_accepts [of env username keyRecord] by simp
  have v: "validateBasicAuth env (Some (username @ '':'' @ password))
             = apiKey_result keyRecord (k_key keyRecord)"
    unfolding validateBasicAuth_cases [OF u p]
    using k b by (cases "findByUsername env username") auto
  have m: "k_mount_permission keyRecord = SqlInt 1"
    using k by simp
  show "let r = validateBasicAuth env (Some (username @ '':'' @ password))
        in ar_isAuthenticated r \<and> ar_authType r = ''apikey'' \<and> \<not> isAdmin r
           \<and> hasPermission r ''mount''
           \<and> hasPermission r ''text'' = (k_text_permission keyRecord = SqlInt 1)
           \<and> hasPermission r ''file'' = (k_file_permission keyRecord = SqlInt 1)
           \<and> \<not> hasPermission r ''admin''
           \<and> ar_basicPath r = js_or (k_basic_path keyRecord) ''/''
           \<and> ar_userId r = Some (k_id keyRecord)"
    unfolding v Let_def
    using m apiKey_result_permissions [of keyRecord "k_key keyRecord"]
    by (simp add: apiKey_result_def isAdmin_def)
qed

theorem validateBasicAuth_principals_witness:
  "ar_isAuthenticated (validateBasicAuth demo_auth_env (Some ''root:secret''))
   \<and> isAdmin (validateBasicAuth demo_auth_env (Some ''root:secret''))
   \<and> ar_basicPath (validateBasicAuth demo_auth_env (Some ''root:secret'')) = ''/''
   \<and> ar_authType (validateBasicAuth demo_auth_env (Some ''key-team-a:key-team-a'')) = ''apikey''
   \<and> ar_basicPath (validateBasicAuth demo_auth_env (Some ''key-team-a:key-team-a'')) = ''/team-a''
   \<and> hasPermission (validateBasicAuth demo_auth_env (Some ''key-team-a:key-team-a'')) ''mount''
   \<and> hasPermission (validateBasicAuth demo_auth_env (Some ''key-team-a:key-team-a'')) ''file''
   \<and> \<not> hasPermission (validateBasicAuth demo_auth_env (Some ''key-team-a:key-team-a'')) ''text''"
proof -
  have 1: "findByUsername demo_auth_env ''root'' = Some \<lparr> adm_id = ''a1'', adm_password = ''hash'' \<rparr>
           \<and> verifyPassword demo_auth_env ''secret''
                (adm_password \<lparr> adm_id = ''a1'', adm_password = ''hash'' \<rparr>)"
    by (simp add: demo_auth_env_def)
  have 2: "''key-team-a'' = ''key-team-a''
           \<and> findByKey (api_keys demo_auth_env) ''key-team-a'' = Some team_key
           \<and> \<not> checkAndDeleteExpiredApiKey demo_auth_env team_key
           \<and> k_mount_permission team_key = SqlInt 1
           \<and> updateLastUsed_ok demo_auth_env (k_id team_key)
           \<and> (\<forall>admin. findByUsername demo_auth_env ''key-team-a'' = Some admin
                 \<longrightarrow> \<not> verifyPassword demo_auth_env ''key-team-a'' (adm_password admin))"
    by (simp add: demo_auth_env_def findByKey_def team_key_def)
  have a: "let r = validateBasicAuth demo_auth_env (Some (''root'' @ '':'' @ ''secret''))
           in ar_isAuthenticated r \<and> isAdmin r \<and> ar_permissions r = full_permissions
              \<and> hasPermission r ''text'' \<and> hasPermission r ''file''
              \<and> hasPermission r ''mount'' \<and> hasPermission r ''admin''
              \<and> ar_basicPath r = ''/''
              \<and> ar_userId r = Some (adm_id \<lparr> adm_id = ''a1'', adm_password = ''hash'' \<rparr>)"
    using validateBasicAuth_principals [of "''root''" "''secret''" demo_auth_env] 1 by simp
  have b: "let r = validateBasicAuth demo_auth_env (Some (''key-team-a'' @ '':'' @ ''key-team-a''))
           in ar_isAuthenticated r \<and> ar_authType r = ''apikey'' \<and> \<not> isAdmin r
              \<and> hasPermission r ''mount''
              \<and> hasPermission r ''text'' = (k_text_permission team_key = SqlInt 1)
              \<and> hasPermission r ''file'' = (k_file_permission team_key = SqlInt 1)
              \<and> \<not> hasPermission r ''admin''
              \<and> ar_basicPath r = js_or (k_basic_path team_key) ''/''
              \<and> ar_userId r = Some (k_id team_key)"
    using validateBasicAuth_principals [of "''key-team-a''" "''key-team-a''" demo_auth_env] 2
    by simp
  show ?thesis
    using a b by (simp add: Let_def team_key_def)
qed

text \<open>
  C9 as stated fails in three ways. An API key without the mount permission is valid and
  not expired, and \<open>Authorization: ApiKey\<close> accepts it, but the Basic credential made of the
  key twice is not authenticated. A key whose mount permission is stored as the text \<open>"1"\<close>
  is authenticated, but the principal does not carry the mount permission. And when the
  update of the last-used time fails, a key that is otherwise accepted is not
  authenticated.
\<close>

theorem validateBasicAuth_principals_counterexample:
  "findByKey (api_keys demo_auth_env) ''key-files'' = Some file_only_key
   \<and> \<not> checkAndDeleteExpiredApiKey demo_auth_env file_only_key
   \<and> ar_isAuthenticated (validateApiKeyAuth demo_auth_env ''key-files'')
   \<and> \<not> ar_isAuthenticated (validateBasicAuth demo_auth_env (Some ''key-files:key-files''))
   \<and> findByKey (api_keys demo_auth_env) ''key-imported'' = Some text_flag_key
   \<and> hasMountPermission (k_mount_permission text_flag_key)
   \<and> ar_isAuthenticated (validateBasicAuth demo_auth_env (Some ''key-imported:key-imported''))
   \<and> \<not> hasPermission (validateBasicAuth demo_auth_env (Some ''key-imported:key-imported''))
         ''mount''
   \<and> findByKey (api_keys readonly_auth_env) ''key-team-a'' = Some team_key
   \<and> \<not> checkAndDeleteExpiredApiKey readonly_auth_env team_key
   \<and> \<not> ar_isAuthenticated
         (validateBasicAuth readonly_auth_env (Some ''key-team-a:key-team-a''))"
  by (simp add: validateBasicAuth_def validateApiKeyAuth_def basic_apiKey_def findByKey_def
      demo_auth_env_def readonly_auth_env_def file_only_key_def team_key_def text_flag_key_def
      apiKey_result_def unauthenticated_def hasPermission_def key_permissions_def Let_def)

subsection \<open>The path-permission guard of the file-system routes\<close>

lemma check_paths_apiKey:
  "check_paths chk (ApiKeyUser (Some info)) paths
     = Some (\<forall>path \<in> set paths. chk (ki_basicPath info) path)"
  by (induction paths) auto

lemma middleware_apiKey:
  assumes "ar_isAuthenticated r" and "\<not> isAdmin r"
  shows "unifiedFsAuthMiddleware (Some r)
           = (if hasPermission r ''file'' then Inr (ApiKeyUser (ar_keyInfo r)) else Inl FORBIDDEN)"
  using assms by (simp add: unifiedFsAuthMiddleware_def)

lemma fs_route_apiKey:
  assumes "ar_isAuthenticated r" and "\<not> isAdmin r" and "ar_keyInfo r = Some info"
  shows "fs_route (Some r) handler
           = (if hasPermission r ''file'' then handler (ApiKeyUser (Some info))
              else (Answer FORBIDDEN, []))"
  using assms by (simp add: fs_route_def middleware_apiKey)

text \<open>
  C1, as amended. Take a request of an authenticated principal that is not an administrator
  and carries the information of an API key with base path \<open>A\<close>, and a path \<open>p\<close> that the
  path-permission predicate rejects for \<open>A\<close>. Every operation guarded by the
  path-permission check is refused on \<open>p\<close> before any call into the service layer:

  \<^item> with HTTP 403 by the middleware of the routes, before any handler, when the principal
    does not have the file permission;

  \<^item> otherwise with HTTP 400 when the handler's validation of the request fails: the path
    is empty (mkdir, upload, remove, update, either path of rename), the file field is
    missing or an empty string (upload), the other path is missing or empty (rename), the
    directory or the file name is empty (presign, where \<open>p\<close> is the target path made of the
    two), or the content is absent (update; an empty content is accepted);

  \<^item> otherwise with HTTP 403 by the handler.

  Batch-remove and batch-copy with \<open>p\<close> among their paths are refused with HTTP 403 in both
  cases. An administrator is let through by the middleware and passes the check for every
  path, in the routes and in \<open>AuthService.checkPathPermission\<close>.
\<close>

theorem fs_path_guard:
  assumes "ar_isAuthenticated r" and "\<not> isAdmin r" and "ar_keyInfo r = Some info"
      and "\<not> chk (ki_basicPath info) p"
  shows "fs_route (Some r) (\<lambda>u. fs_mkdir chk svc u (Some p))
           = (Answer (if \<not> hasPermission r ''file'' then FORBIDDEN
                      else if p = [] then BAD_REQUEST else FORBIDDEN), [])
       \<and> fs_route (Some r) (\<lambda>u. fs_upload chk svc u fileField (Some p) useMultipart)
           = (Answer (if \<not> hasPermission r ''file'' then FORBIDDEN
                      else if \<not> present fileField \<or> p = [] then BAD_REQUEST else FORBIDDEN), [])
       \<and> fs_route (Some r) (\<lambda>u. fs_remove chk svc u (Some p))
           = (Answer (if \<not> hasPermission r ''file'' then FORBIDDEN
                      else if p = [] then BAD_REQUEST else FORBIDDEN), [])
       \<and> fs_route (Some r) (\<lambda>u. fs_rename chk svc u (Some p) other)
           = (Answer (if \<not> hasPermission r ''file'' then FORBIDDEN
                      else if p = [] \<or> \<not> truthy other then BAD_REQUEST else FORBIDDEN), [])
       \<and> fs_route (Some r) (\<lambda>u. fs_rename chk svc u other (Some p))
           = (Answer (if \<not> hasPermission r ''file'' then FORBIDDEN
                      else if p = [] \<or> \<not> truthy other then BAD_REQUEST else FORBIDDEN), [])
       \<and> (p \<in> set paths \<longrightarrow>
            fs_route (Some r) (\<lambda>u. fs_batch_remove chk svc u (Some paths))
              = (Answer FORBIDDEN, []))
       \<and> (\<forall>dir name. p = tempTargetPath dir name \<longrightarrow>
            fs_route (Some r) (\<lambda>u. fs_presign chk svc u (Some dir) (Some name))
              = (Answer (if \<not> hasPermission r ''file'' then FORBIDDEN
                         else if dir = [] \<or> name = [] then BAD_REQUEST else FORBIDDEN), []))
       \<and> fs_route (Some r) (\<lambda>u. fs_update chk svc u (Some p) content)
           = (Answer (if \<not> hasPermission r ''file'' then FORBIDDEN
                      else if p = [] \<or> content = None then BAD_REQUEST else FORBIDDEN), [])
       \<and> ((\<exists>q. (p, q) \<in> set items \<or> (q, p) \<in> set items) \<longrightarrow>
            fs_route (Some r) (\<lambda>u. fs_batch_copy chk svc u (Some items) skipExisting)
              = (Answer FORBIDDEN, []))
       \<and> status_code FORBIDDEN = 403 \<and> status_code BAD_REQUEST = 400
       \<and> (ar_isAuthenticated a \<and> isAdmin a \<longrightarrow>
            unifiedFsAuthMiddleware (Some a) = Inr (AdminUser (getUserId a))
            \<and> checkPathPermission chk (AdminUser (getUserId a)) q = Some True
            \<and> auth_checkPathPermission chk a q)"
proof -
  note route = fs_route_apiKey [OF assms(1-3)]
  note no = assms(4)
  have mk: "fs_route (Some r) (\<lambda>u. fs_mkdir chk svc u (Some p))
           = (Answer (if \<not> hasPermission r ''file'' then FORBIDDEN
                      else if p = [] then BAD_REQUEST else FORBIDDEN), [])"
    unfolding route using no by (simp add: fs_mkdir_def path_guard_def)
  have up: "fs_route (Some r) (\<lambda>u. fs_upload chk svc u fileField (Some p) useMultipart)
           = (Answer (if \<not> hasPermission r ''file'' then FORBIDDEN
                      else if \<not> present fileField \<or> p = [] then BAD_REQUEST else FORBIDDEN), [])"
    unfolding route using no by (simp add: fs_upload_def path_guard_def)
  have rm: "fs_route (Some r) (\<lambda>u. fs_remove chk svc u (Some p))
           = (Answer (if \<not> hasPermission r ''file'' then FORBIDDEN
                      else if p = [] then BAD_REQUEST else FORBIDDEN), [])"
    unfolding route using no by (simp add: fs_remove_def path_guard_def)
  have rn1: "fs_route (Some r) (\<lambda>u. fs_rename chk svc u (Some p) other)
           = (Answer (if \<not> hasPermission r ''file'' then FORBIDDEN
                      else if p = [] \<or> \<not> truthy other then BAD_REQUEST else FORBIDDEN), [])"
    unfolding route using no by (cases other) (simp_all add: fs_rename_def path_guard_def)
  have rn2: "fs_route (Some r) (\<lambda>u. fs_rename chk svc u other (Some p))
           = (Answer (if \<not> hasPermission r ''file'' then FORBIDDEN
                      else if p = [] \<or> \<not> truthy other then BAD_REQUEST else FORBIDDEN), [])"
    unfolding route using no by (cases other) (auto simp add: fs_rename_def path_guard_def)
  have br: "p \<in> set paths \<longrightarrow>
            fs_route (Some r) (\<lambda>u. fs_batch_remove chk svc u (Some paths))
              = (Answer FORBIDDEN, [])"
    unfolding route using no
    by (auto simp add: fs_batch_remove_def path_guard_def check_paths_apiKey)
  have ps: "\<forall>dir name. p = tempTargetPath dir name \<longrightarrow>
            fs_route (Some r) (\<lambda>u. fs_presign chk svc u (Some dir) (Some name))
              = (Answer (if \<not> hasPermission r ''file'' then FORBIDDEN
                         else if dir = [] \<or> name = [] then BAD_REQUEST else FORBIDDEN), [])"
    unfolding route using no by (auto simp add: fs_presign_def path_guard_def)
  have ud: "fs_route (Some r) (\<lambda>u. fs_update chk svc u (Some p) content)
           = (Answer (if \<not> hasPermission r ''file'' then FORBIDDEN
                      else if p = [] \<or> content = None then BAD_REQUEST else FORBIDDEN), [])"
    unfolding route using no by (cases content) (simp_all add: fs_update_def path_guard_def)
  have bc: "(\<exists>q. (p, q) \<in> set items \<or> (q, p) \<in> set items) \<longrightarrow>
            fs_route (Some r) (\<lambda>u. fs_batch_copy chk svc u (Some items) skipExisting)
              = (Answer FORBIDDEN, [])"
    unfolding route using no
    by (auto simp add: fs_batch_copy_def path_guard_def check_paths_apiKey)
  have ad: "ar_isAuthenticated a \<and> isAdmin a \<longrightarrow>
            unifiedFsAuthMiddleware (Some a) = Inr (AdminUser (getUserId a))
            \<and> checkPathPermission chk (AdminUser (getUserId a)) q = Some True
            \<and> auth_checkPathPermission chk a q"
    by (simp add: auth_checkPathPermission_def unifiedFsAuthMiddleware_def)
  show ?thesis
    using mk up rm rn1 rn2 br ps ud bc ad by simp
qed

theorem fs_path_guard_witness:
  "fs_route (Some team_auth) (\<lambda>u. fs_mkdir prefix_chk svc_ok u (Some ''/team-b/x''))
     = (Answer FORBIDDEN, [])
   \<and> fs_route (Some team_auth) (\<lambda>u. fs_remove prefix_chk svc_ok u (Some ''/team-b/x''))
       = (Answer FORBIDDEN, [])
   \<and> fs_route (Some team_auth)
        (\<lambda>u. fs_rename prefix_chk svc_ok u (Some ''/team-a/x'') (Some ''/team-b/x''))
       = (Answer FORBIDDEN, [])
   \<and> fs_route (Some team_auth)
        (\<lambda>u. fs_batch_remove prefix_chk svc_ok u (Some [''/team-a/y'', ''/team-b/x'']))
       = (Answer FORBIDDEN, [])
   \<and> fs_route (Some team_auth)
        (\<lambda>u. fs_presign prefix_chk svc_ok u (Some ''/team-b'') (Some ''x''))
       = (Answer FORBIDDEN, [])
   \<and> fs_route (Some team_auth)
        (\<lambda>u. fs_update prefix_chk svc_ok u (Some ''/team-b/x'') (Some []))
       = (Answer FORBIDDEN, [])
   \<and> fs_route (Some team_auth)
        (\<lambda>u. fs_upload prefix_chk svc_ok u (Some (FormFile ''x'' [])) (Some ''/team-b/x'') False)
       = (Answer FORBIDDEN, [])
   \<and> fs_route (Some team_auth)
        (\<lambda>u. fs_batch_copy prefix_chk svc_ok u (Some [(''/team-a/y'', ''/team-b/x'')]) True)
       = (Answer FORBIDDEN, [])"
proof -
  have au: "ar_isAuthenticated team_auth" and na: "\<not> isAdmin team_auth"
    and ki: "ar_keyInfo team_auth = Some team_info"
    and fp: "hasPermission team_auth ''file''"
    by (simp_all add: team_auth_def apiKey_result_def team_key_def team_info_def isAdmin_def
        hasPermission_def key_permissions_def)
  have no: "\<not> prefix_chk (ki_basicPath team_info) ''/team-b/x''"
    by (simp add: prefix_chk_def team_info_def)
  have tp: "''/team-b/x'' = tempTargetPath ''/team-b'' ''x''"
    by (simp add: tempTargetPath_def)
  have m1: "''/team-b/x'' \<in> set [''/team-a/y'', ''/team-b/x'']" by simp
  have m2: "\<exists>q. (''/team-b/x'', q) \<in> set [(''/team-a/y'', ''/team-b/x'')]
               \<or> (q, ''/team-b/x'') \<in> set [(''/team-a/y'', ''/team-b/x'')]"
    by (rule exI [of _ "''/team-a/y''"]) simp
  note T = fs_path_guard [where chk = prefix_chk and r = team_auth and info = team_info
             and p = "''/team-b/x''" and svc = svc_ok and other = "Some ''/team-a/x''"
             and paths = "[''/team-a/y'', ''/team-b/x'']" and content = "Some []"
             and fileField = "Some (FormFile ''x'' [])" and useMultipart = False
             and items = "[(''/team-a/y'', ''/team-b/x'')]" and skipExisting = True,
             OF au na ki no]
  have 1: "fs_route (Some team_auth) (\<lambda>u. fs_mkdir prefix_chk svc_ok u (Some ''/team-b/x''))
     = (Answer FORBIDDEN, [])"
    using T fp by simp
  have 2: "fs_route (Some team_auth) (\<lambda>u. fs_remove prefix_chk svc_ok u (Some ''/team-b/x''))
       = (Answer FORBIDDEN, [])"
    using T fp by simp
  have 3: "fs_route (Some team_auth)
        (\<lambda>u. fs_rename prefix_chk svc_ok u (Some ''/team-a/x'') (Some ''/team-b/x''))
       = (Answer FORBIDDEN, [])"
    using T fp by simp
  have 4: "fs_route (Some team_auth)
        (\<lambda>u. fs_batch_remove prefix_chk svc_ok u (Some [''/team-a/y'', ''/team-b/x'']))
       = (Answer FORBIDDEN, [])"
    using T m1 by blast
  have 5: "fs_route (Some team_auth)
        (\<lambda>u. fs_presign prefix_chk svc_ok u (Some ''/team-b'') (Some ''x''))
       = (Answer FORBIDDEN, [])"
  proof -
    from T have "\<forall>dir name. ''/team-b/x'' = tempTargetPath dir name \<longrightarrow>
            fs_route (Some team_auth) (\<lambda>u. fs_presign prefix_chk svc_ok u (Some dir) (Some name))
              = (Answer (if \<not> hasPermission team_auth ''file'' then FORBIDDEN
                         else if dir = [] \<or> name = [] then BAD_REQUEST else FORBIDDEN), [])"
      by blast
    with tp fp show ?thesis by fastforce
  qed
  have 6: "fs_route (Some team_auth)
        (\<lambda>u. fs_update prefix_chk svc_ok u (Some ''/team-b/x'') (Some []))
       = (Answer FORBIDDEN, [])"
    using T fp by simp
  have 7: "fs_route (Some team_auth)
        (\<lambda>u. fs_upload prefix_chk svc_ok u (Some (FormFile ''x'' [])) (Some ''/team-b/x'') False)
       = (Answer FORBIDDEN, [])"
    using T fp by simp
  have 8: "fs_route (Some team_auth)
        (\<lambda>u. fs_batch_copy prefix_chk svc_ok u (Some [(''/team-a/y'', ''/team-b/x'')]) True)
       = (Answer FORBIDDEN, [])"
    using T m2 by blast
  show ?thesis using 1 2 3 4 5 6 7 8 by simp
qed

text \<open>
  C1 as stated fails on the status: an update request for a path outside the key's base
  path that carries no content is refused with HTTP 400, not 403, because the handler
  validates the request before it checks the path.
\<close>

theorem fs_path_guard_counterexample:
  "ar_isAuthenticated team_auth
   \<and> ar_authType team_auth = ''apikey''
   \<and> hasPermission team_auth ''file''
   \<and> ar_basicPath team_auth = ''/team-a''
   \<and> \<not> prefix_chk ''/team-a'' ''/team-b/x''
   \<and> fs_route (Some team_auth) (\<lambda>u. fs_update prefix_chk svc_ok u (Some ''/team-b/x'') None)
       = (Answer BAD_REQUEST, [])
   \<and> status_code BAD_REQUEST = 400"
  by (simp add: fs_route_def unifiedFsAuthMiddleware_def fs_update_def prefix_chk_def
      team_auth_def apiKey_result_def team_key_def isAdmin_def hasPermission_def
      key_permissions_def)

subsection \<open>WebDAV PUT\<close>




lemma trueStreamingUpload_events:
  "FsUploadFile p d t m \<notin> set (snd (trueStreamingUpload env path key contentType stream))"
  by (auto simp add: trueStreamingUpload_def Let_def split: option.splits)

lemma filter_is_upload_requests: "filter is_upload (map SdkRequest rs) = map SdkRequest rs"
  by (induction rs) simp_all

lemma trueStreamingUpload_upload:
  "getDriverByPath env path = Some found \<Longrightarrow> gd_hasS3Client found \<Longrightarrow>
   gd_bucket found = Some b \<Longrightarrow> b \<noteq> [] \<Longrightarrow>
   snd (trueStreamingUpload env path key contentType stream)
     = [GetDriverByPath path, LibStorageUpload b key contentType]
       @ map SdkRequest (snd (upload_done env b key contentType 3 (5 * 1024 * 1024) stream))"
  by (simp add: trueStreamingUpload_def Let_def)

lemma upload_streaming_no_direct:
  "FsUploadFile p d t m \<notin> set (snd (upload_streaming env path contentType stream))"
  by (simp add: upload_streaming_def Let_def trueStreamingUpload_events split: option.splits)

lemma upload_streaming_upload:
  assumes "getDriverByPath env path = Some found" and "gd_hasS3Client found"
      and "gd_bucket found = Some b" and "b \<noteq> []"
  shows "filter is_upload (snd (upload_streaming env path contentType stream))
           = LibStorageUpload b (gd_s3Key found) contentType
             # map SdkRequest (snd (upload_done env b (gd_s3Key found) contentType 3
                                      (5 * 1024 * 1024) stream))"
  using assms(1)
  by (simp add: upload_streaming_def Let_def trueStreamingUpload_upload [OF assms]
      filter_is_upload_requests split: option.splits)

lemma upload_directly_uploads:
  "filter is_upload (snd (upload_directly env path fileData contentType))
     = [FsUploadFile path fileData contentType False]"
  by (simp add: upload_directly_def split: option.splits)



lemma handlePut_chunked:
  assumes "pr_ContentLength req = None" and "isChunked req"
      and "checkLockPermission env path (pr_If req) = None"
      and "pr_body req = Some chunks"
  shows "handlePut env path req
           = (if js_or (webdav_upload_mode env) ''direct'' = ''direct''
              then upload_directly env path (concat chunks)
                     (getMimeTypeFromFilename env (last (split_slash path)))
              else upload_streaming env path
                     (getMimeTypeFromFilename env (last (split_slash path))) chunks)"
  using assms by (simp add: handlePut_def emptyBodyCheck_def Let_def)


text \<open>
  C3, as amended. For a PUT request with \<open>Transfer-Encoding: chunked\<close> and no
  \<open>Content-Length\<close> that passes the lock check and has a body stream:

  \<^item> when the setting \<open>webdav_upload_mode\<close> has a non-empty value other than \<open>direct\<close>,
    \<open>fileSystem.uploadFile\<close> is not called; and when the driver lookup for the path gives
    a driver with an S3 client and a bucket name, the body stream, whatever it holds, is
    handed to exactly one \<open>Upload\<close> of the AWS SDK for that bucket and the driver's key, with
    queue size 3 and part size 5 MiB, and the requests that reach the object store are
    those this \<open>Upload\<close> sends;

  \<^item> when the setting is \<open>direct\<close>, empty or absent, the whole body is read into memory and
    uploaded with exactly one \<open>fileSystem.uploadFile\<close> call with \<open>useMultipart: false\<close>; no
    \<open>Upload\<close> is made.
\<close>

theorem handlePut_chunked_mode:
  assumes "pr_ContentLength req = None" and "isChunked req"
      and "checkLockPermission env path (pr_If req) = None"
      and "pr_body req = Some chunks"
      and "contentType = getMimeTypeFromFilename env (last (split_slash path))"
  shows "(js_or (webdav_upload_mode env) ''direct'' \<noteq> ''direct'' \<longrightarrow>
            (\<forall>p d t m. FsUploadFile p d t m \<notin> set (snd (handlePut env path req)))
            \<and> (\<forall>found b. getDriverByPath env path = Some found \<and> gd_hasS3Client found
                  \<and> gd_bucket found = Some b \<and> b \<noteq> []
                  \<longrightarrow> filter is_upload (snd (handlePut env path req))
                        = LibStorageUpload b (gd_s3Key found) contentType
                          # map SdkRequest
                              (snd (upload_done env b (gd_s3Key found) contentType 3
                                      (5 * 1024 * 1024) chunks))))
       \<and> (js_or (webdav_upload_mode env) ''direct'' = ''direct'' \<longrightarrow>
            filter is_upload (snd (handlePut env path req))
              = [FsUploadFile path (concat chunks) contentType False])"
proof -
  note eq = handlePut_chunked [OF assms(1-4)]
  show ?thesis
  proof (cases "js_or (webdav_upload_mode env) ''direct'' = ''direct''")
    case True
    then show ?thesis
      unfolding eq assms(5)
      using upload_directly_uploads by simp
  next
    case False
    then show ?thesis
      unfolding eq assms(5)
      using upload_streaming_no_direct upload_streaming_upload by simp
  qed
qed

lemma demo_mime_txt: "demo_mime (last (split_slash ''/docs/a.txt'')) = ''text/plain''"
  by (simp add: demo_mime_def)


theorem handlePut_chunked_mode_witness:
  "filter is_upload (snd (handlePut multipart_put_env ''/docs/a.txt'' chunked_request))
     = [LibStorageUpload ''bucket'' ''docs/a.txt'' ''text/plain'',
        SdkRequest (SdkPutObject ''bucket'' ''docs/a.txt'' [1, 2, 3] ''text/plain'')]
   \<and> filter is_upload (snd (handlePut demo_put_env ''/docs/a.txt'' chunked_request))
       = [FsUploadFile ''/docs/a.txt'' [1, 2, 3] ''text/plain'' False]"
proof -
  have cl: "pr_ContentLength chunked_request = None"
    by (simp add: chunked_request_def)
  have ch: "isChunked chunked_request"
    by (simp add: isChunked_def chunked_request_def toLowerCase_def)
  have bd: "pr_body chunked_request = Some [[1, 2], [3]]"
    by (simp add: chunked_request_def)
  have lk1: "checkLockPermission multipart_put_env ''/docs/a.txt'' (pr_If chunked_request) = None"
    and lk2: "checkLockPermission demo_put_env ''/docs/a.txt'' (pr_If chunked_request) = None"
    by (simp_all add: multipart_put_env_def demo_put_env_def)
  have mt1: "''text/plain''
               = getMimeTypeFromFilename multipart_put_env (last (split_slash ''/docs/a.txt''))"
    and mt2: "''text/plain''
               = getMimeTypeFromFilename demo_put_env (last (split_slash ''/docs/a.txt''))"
    using demo_mime_txt by (simp_all add: multipart_put_env_def demo_put_env_def)
  have mode1: "js_or (webdav_upload_mode multipart_put_env) ''direct'' \<noteq> ''direct''"
    and mode2: "js_or (webdav_upload_mode demo_put_env) ''direct'' = ''direct''"
    by (simp_all add: multipart_put_env_def demo_put_env_def)
  have drv: "getDriverByPath multipart_put_env ''/docs/a.txt''
                = Some \<lparr> gd_mount = Some ''m1'', gd_hasS3Client = True,
                         gd_bucket = Some ''bucket'', gd_s3Key = ''docs/a.txt'' \<rparr>
             \<and> gd_hasS3Client \<lparr> gd_mount = Some ''m1'', gd_hasS3Client = True,
                         gd_bucket = Some ''bucket'', gd_s3Key = ''docs/a.txt'' \<rparr>
             \<and> gd_bucket \<lparr> gd_mount = Some ''m1'', gd_hasS3Client = True,
                         gd_bucket = Some ''bucket'', gd_s3Key = ''docs/a.txt'' \<rparr> = Some ''bucket''
             \<and> ''bucket'' \<noteq> []"
    by (simp add: multipart_put_env_def demo_put_env_def)
  have lib: "snd (upload_done multipart_put_env ''bucket''
                    (gd_s3Key \<lparr> gd_mount = Some ''m1'', gd_hasS3Client = True,
                         gd_bucket = Some ''bucket'', gd_s3Key = ''docs/a.txt'' \<rparr>)
                    ''text/plain'' 3 (5 * 1024 * 1024) [[1, 2], [3]])
               = [SdkPutObject ''bucket'' ''docs/a.txt'' [1, 2, 3] ''text/plain'']"
    by (simp add: multipart_put_env_def demo_put_env_def lib_storage_upload_def)
  have "filter is_upload (snd (handlePut multipart_put_env ''/docs/a.txt'' chunked_request))
          = LibStorageUpload ''bucket''
              (gd_s3Key \<lparr> gd_mount = Some ''m1'', gd_hasS3Client = True,
                         gd_bucket = Some ''bucket'', gd_s3Key = ''docs/a.txt'' \<rparr>) ''text/plain''
            # map SdkRequest
                (snd (upload_done multipart_put_env ''bucket''
                    (gd_s3Key \<lparr> gd_mount = Some ''m1'', gd_hasS3Client = True,
                         gd_bucket = Some ''bucket'', gd_s3Key = ''docs/a.txt'' \<rparr>)
                    ''text/plain'' 3 (5 * 1024 * 1024) [[1, 2], [3]]))"
    using handlePut_chunked_mode [OF cl ch lk1 bd mt1] mode1 drv by blast
  then have 1: "filter is_upload
                  (snd (handlePut multipart_put_env ''/docs/a.txt'' chunked_request))
     = [LibStorageUpload ''bucket'' ''docs/a.txt'' ''text/plain'',
        SdkRequest (SdkPutObject ''bucket'' ''docs/a.txt'' [1, 2, 3] ''text/plain'')]"
    unfolding lib by simp
  have 2: "filter is_upload (snd (handlePut demo_put_env ''/docs/a.txt'' chunked_request))
       = [FsUploadFile ''/docs/a.txt'' [1, 2, 3] ''text/plain'' False]"
    using handlePut_chunked_mode [OF cl ch lk2 bd mt2] mode2 by simp
  show ?thesis using 1 2 by simp
qed

text \<open>
  C3 as stated fails in two ways. Under the default upload mode, with no value for
  \<open>webdav_upload_mode\<close>, a chunked PUT without \<open>Content-Length\<close> is uploaded with a single
  \<open>fileSystem.uploadFile\<close> call with \<open>useMultipart: false\<close>: the streaming pipeline is not
  used. And under the mode \<open>multipart\<close> the streaming pipeline is used, but it is not an S3
  multipart upload regardless of size: the body of three bytes reaches the object store
  as a single PutObject, with no CreateMultipartUpload and no UploadPart.
\<close>

theorem handlePut_chunked_mode_counterexample:
  "pr_ContentLength chunked_request = None
   \<and> pr_TransferEncoding chunked_request = Some ''chunked''
   \<and> handlePut demo_put_env ''/docs/a.txt'' chunked_request
       = (Status 201,
          [FsUploadFile ''/docs/a.txt'' [1, 2, 3] ''text/plain'' False,
           GetDriverByPath ''/docs/a.txt'', ClearDirectoryCache ''m1''])
   \<and> webdav_upload_mode multipart_put_env = Some ''multipart''
   \<and> handlePut multipart_put_env ''/docs/a.txt'' chunked_request
       = (Status 201,
          [GetDriverByPath ''/docs/a.txt'', GetDriverByPath ''/docs/a.txt'',
           LibStorageUpload ''bucket'' ''docs/a.txt'' ''text/plain'',
           SdkRequest (SdkPutObject ''bucket'' ''docs/a.txt'' [1, 2, 3] ''text/plain''),
           ClearDirectoryCache ''m1''])"
  by (simp add: handlePut_def emptyBodyCheck_def isChunked_def chunked_request_def
      toLowerCase_def demo_put_env_def multipart_put_env_def upload_directly_def
      upload_streaming_def trueStreamingUpload_def lib_storage_upload_def demo_mime_def
      Let_def)

end
